theory Spec2Isabelle
  imports Complex_Main "HOL-Library.AList" "HOL-Library.Word" "HOL-Library.Sublist"
begin

unbundle bit_operations_syntax

section \<open>Python values and exceptions\<close>

text \<open>
  Every exception the modelled code can raise is a value of \<open>error\<close>; a function that
  may raise returns \<open>error + 'a\<close> with \<open>Inl\<close> for the exception. The string is the
  exception's message (\<open>str(e)\<close>). A Python float and a 32-bit float of the simulator
  are represented by the rational they denote; the rounding of the arithmetic and of
  the stores of \<open>spawn_vehicle\<close> is modelled by \<open>float64\<close> and \<open>float32\<close> below, the
  poses of sensors are recorded as they are given.
\<close>

datatype error =
    RuntimeError string
  | ValueError string
  | TypeError string
  | AttributeError string
  | IndexError string
  | NotImplementedError

fun str :: "error \<Rightarrow> string" where
  "str (RuntimeError m) = m"
| "str (ValueError m) = m"
| "str (TypeError m) = m"
| "str (AttributeError m) = m"
| "str (IndexError m) = m"
| "str NotImplementedError = []"

text \<open>
  The values a YAML document loads to. A dict is an association list in insertion
  order; keys are strings, as the annotations of \<open>settings.py\<close> say (\<open>Dict[str, Any]\<close>).
\<close>

datatype pyval =
    PNone
  | PBool bool
  | PInt int
  | PFloat rat
  | PStr string
  | PList "pyval list"
  | PDict "(string \<times> pyval) list"

fun type_name :: "pyval \<Rightarrow> string" where
  "type_name PNone = ''NoneType''"
| "type_name (PBool b) = ''bool''"
| "type_name (PInt i) = ''int''"
| "type_name (PFloat r) = ''float''"
| "type_name (PStr s) = ''str''"
| "type_name (PList xs) = ''list''"
| "type_name (PDict kvs) = ''dict''"

fun is_dict :: "pyval \<Rightarrow> bool" where
  "is_dict (PDict kvs) = True"
| "is_dict v = False"

fun is_scalar :: "pyval \<Rightarrow> bool" where
  "is_scalar (PList xs) = False"
| "is_scalar (PDict kvs) = False"
| "is_scalar v = True"

text \<open>\<open>d.get(k, dflt)\<close>: only a dict has the method.\<close>

fun py_get :: "pyval \<Rightarrow> string \<Rightarrow> pyval \<Rightarrow> error + pyval" where
  "py_get (PDict kvs) k dflt = Inr (case map_of kvs k of None \<Rightarrow> dflt | Some v \<Rightarrow> v)"
| "py_get d k dflt = Inl (AttributeError (type_name d @ '' object has no attribute get''))"

text \<open>
  \<open>d[k] = v\<close> with a string key: a dict keeps the position of an existing key and
  appends a new one; every other value raises \<open>TypeError\<close>.
\<close>

fun py_setitem :: "pyval \<Rightarrow> string \<Rightarrow> pyval \<Rightarrow> error + pyval" where
  "py_setitem (PDict kvs) k v = Inr (PDict (AList.update k v kvs))"
| "py_setitem (PList xs) k v =
     Inl (TypeError ''list indices must be integers or slices, not str'')"
| "py_setitem d k v =
     Inl (TypeError (type_name d @ '' object does not support item assignment''))"

text \<open>\<open>u.items()\<close>: only a dict has the method.\<close>

fun py_items :: "pyval \<Rightarrow> error + (string \<times> pyval) list" where
  "py_items (PDict kvs) = Inr kvs"
| "py_items u = Inl (AttributeError (type_name u @ '' object has no attribute items''))"

section \<open>Settings (\<open>src/config/settings.py\<close>)\<close>

record Settings =
  config_path :: "string option"
  settings :: pyval

definition load_default_settings :: pyval where
  "load_default_settings = PDict
     [(''carla'', PDict
         [(''host'', PStr ''localhost''),
          (''port'', PInt 2000),
          (''timeout'', PFloat 10),
          (''vehicle_type'', PStr ''tesla.model3'')]),
      (''sensors'', PDict
         [(''rgb_camera'', PDict
             [(''location'', PList [PFloat 0, PFloat 0, PFloat 2]),
              (''rotation'', PList [PFloat 0, PFloat 0, PFloat 0]),
              (''fov'', PFloat 90)]),
          (''lidar'', PDict
             [(''location'', PList [PFloat 0, PFloat 0, PFloat (5 / 2)]),
              (''rotation'', PList [PFloat 0, PFloat 0, PFloat 0]),
              (''channels'', PInt 32),
              (''range'', PFloat 50)])]),
      (''model'', PDict
         [(''type'', PStr ''transfuser''),
          (''weights_path'', PStr ''model_ckpt/model.ckpt''),
          (''input_size'', PList [PInt 224, PInt 224]),
          (''batch_size'', PInt 1)]),
      (''visualization'', PDict
         [(''enabled'', PBool True),
          (''save_video'', PBool False),
          (''output_dir'', PStr ''results'')])]"

text \<open>
  \<open>Settings._update_dict(d, u)\<close>, on the items of \<open>u\<close> in their order. The loop body is
  \<open>d[k] = self._update_dict(d.get(k, {}), v)\<close> for a dict \<open>v\<close> (the right-hand side is
  evaluated first) and \<open>d[k] = v\<close> otherwise. The source updates \<open>d\<close> in place; the model
  returns the updated value, and an exception abandons the partly updated dictionary.
\<close>

fun update_dict :: "pyval \<Rightarrow> (string \<times> pyval) list \<Rightarrow> error + pyval" where
  "update_dict d [] = Inr d"
| "update_dict d ((k, PDict vs) # rest) =
     (case py_get d k (PDict []) of
        Inl e \<Rightarrow> Inl e
      | Inr sub \<Rightarrow>
          (case update_dict sub vs of
             Inl e \<Rightarrow> Inl e
           | Inr r \<Rightarrow>
               (case py_setitem d k r of
                  Inl e \<Rightarrow> Inl e
                | Inr d' \<Rightarrow> update_dict d' rest)))"
| "update_dict d ((k, v) # rest) =
     (case py_setitem d k v of
        Inl e \<Rightarrow> Inl e
      | Inr d' \<Rightarrow> update_dict d' rest)"

text \<open>
  \<open>Settings.load_config\<close>. Opening and parsing the file is outside the repository: the
  argument \<open>loaded\<close> is what \<open>open\<close> and \<open>yaml.safe_load\<close> produced, an exception or the
  loaded value (any YAML value, not only a dict).
\<close>

definition load_config :: "Settings \<Rightarrow> error + pyval \<Rightarrow> error + Settings" where
  "load_config s loaded =
     (case loaded of
        Inl e \<Rightarrow> Inl e
      | Inr user_settings \<Rightarrow>
          (case py_items user_settings of
             Inl e \<Rightarrow> Inl e
           | Inr items \<Rightarrow>
               (case update_dict (settings s) items of
                  Inl e \<Rightarrow> Inl e
                | Inr d \<Rightarrow> Inr (s\<lparr>settings := d\<rparr>))))"

text \<open>
  \<open>Settings.__init__\<close>: the defaults, then the file when a path is given.
\<close>

definition Settings_init :: "string option \<Rightarrow> error + pyval \<Rightarrow> error + Settings" where
  "Settings_init path loaded =
     (let s = \<lparr>config_path = path, settings = load_default_settings\<rparr>
      in case path of
           None \<Rightarrow> Inr s
         | Some p \<Rightarrow> if p = [] then Inr s else load_config s loaded)"

text \<open>
  The value at a key path of nested dicts, used to state where an override and a default
  meet.
\<close>

fun lookup_path :: "pyval \<Rightarrow> string list \<Rightarrow> pyval option" where
  "lookup_path v [] = Some v"
| "lookup_path (PDict kvs) (k # ks) =
     (case map_of kvs k of None \<Rightarrow> None | Some v \<Rightarrow> lookup_path v ks)"
| "lookup_path v (k # ks) = None"

text \<open>
  What the merge leaves under one key \<open>k\<close> of the result, for the defaults \<open>ds\<close> and the
  override \<open>u\<close>: the default when the override has no such key, the merge of the default
  (or of the empty dict) with a dict-valued override, the override's value otherwise.
\<close>

definition merged_at ::
  "(string \<times> pyval) list \<Rightarrow> (string \<times> pyval) list \<Rightarrow> string \<Rightarrow> pyval option \<Rightarrow> bool" where
  "merged_at ds u k r =
     (case map_of u k of
        None \<Rightarrow> r = map_of ds k
      | Some (PDict vs) \<Rightarrow>
          (case update_dict (case map_of ds k of None \<Rightarrow> PDict [] | Some x \<Rightarrow> x) vs of
             Inl e \<Rightarrow> False
           | Inr m \<Rightarrow> r = Some m)
      | Some v \<Rightarrow> r = Some v)"

text \<open>The override that holds only the value \<open>v\<close>, under the key path \<open>ks\<close>.\<close>

fun nest :: "string list \<Rightarrow> pyval \<Rightarrow> pyval" where
  "nest [] v = v"
| "nest (k # ks) v = PDict [(k, nest ks v)]"

section \<open>Frames and the decode step (\<open>src/carla_interface/sensors.py\<close>)\<close>

text \<open>
  A numpy array is its shape and its elements in row-major order. The element type is
  the constructor of \<open>frame\<close>: \<open>uint8\<close> elements are bytes, \<open>float32\<close> elements are kept as
  their 32-bit patterns (the decode step only regroups them).
\<close>

record 'a ndarray =
  shape :: "nat list"
  data :: "'a list"

datatype frame =
    UInt8Array "8 word ndarray"
  | Float32Array "32 word ndarray"

text \<open>
  What the simulator hands to a callback: the raw buffer and, for images, the height
  and width (a range-sensor measurement has only the buffer; its other two fields are
  not read).
\<close>

record SensorData =
  height :: nat
  width :: nat
  raw_data :: "8 word list"

text \<open>\<open>np.frombuffer(raw, dtype=uint8)\<close>: a one-dimensional view of the bytes.\<close>

definition frombuffer_uint8 :: "8 word list \<Rightarrow> 8 word ndarray" where
  "frombuffer_uint8 raw = \<lparr>shape = [length raw], data = raw\<rparr>"

text \<open>
  \<open>np.frombuffer(raw, dtype='f4')\<close>: each four bytes are one element, least significant
  byte first; a buffer whose size is no multiple of four is refused.
\<close>

fun f4_elements :: "8 word list \<Rightarrow> 32 word list" where
  "f4_elements (b0 # b1 # b2 # b3 # rest) =
     (ucast b0 OR push_bit 8 (ucast b1) OR push_bit 16 (ucast b2) OR push_bit 24 (ucast b3))
       # f4_elements rest"
| "f4_elements rest = []"

definition frombuffer_f4 :: "8 word list \<Rightarrow> error + 32 word ndarray" where
  "frombuffer_f4 raw =
     (if length raw mod 4 \<noteq> 0
      then Inl (ValueError ''buffer size must be a multiple of element size'')
      else Inr \<lparr>shape = [length raw div 4], data = f4_elements raw\<rparr>)"

text \<open>\<open>np.reshape(a, newshape)\<close>: the sizes must agree.\<close>

definition reshape :: "'a ndarray \<Rightarrow> nat list \<Rightarrow> error + 'a ndarray" where
  "reshape a newshape =
     (if prod_list newshape = length (data a)
      then Inr (a\<lparr>shape := newshape\<rparr>)
      else Inl (ValueError ''cannot reshape array''))"

text \<open>
  \<open>a[:, :, :n]\<close> and \<open>a[:, :, 0]\<close> on a three-dimensional array of shape \<open>(h, w, c)\<close>:
  element \<open>(i, j, k)\<close> of the array is element \<open>(i * w + j) * c + k\<close> of its data.
\<close>

definition slice_channels :: "nat \<Rightarrow> 'a ndarray \<Rightarrow> error + 'a ndarray" where
  "slice_channels n a =
     (case shape a of
        [h, w, c] \<Rightarrow>
          Inr \<lparr>shape = [h, w, min n c],
               data = map (\<lambda>i. data a ! (c * (i div min n c) + i mod min n c))
                          [0 ..< h * w * min n c]\<rparr>
      | _ \<Rightarrow> Inl (IndexError ''too many indices for array''))"

definition channel0 :: "'a ndarray \<Rightarrow> error + 'a ndarray" where
  "channel0 a =
     (case shape a of
        [h, w, c] \<Rightarrow>
          if c = 0 then Inl (IndexError ''index 0 is out of bounds for axis 2 with size 0'')
          else Inr \<lparr>shape = [h, w], data = map (\<lambda>p. data a ! (c * p)) [0 ..< h * w]\<rparr>
      | _ \<Rightarrow> Inl (IndexError ''too many indices for array''))"

text \<open>
  The sensor classes with the fields their constructors add: the field of view of a
  camera, the channel count and range of the range sensor.
\<close>

datatype sensor_class =
    Base
  | RGBCamera rat
  | LidarSensor int rat
  | SemanticCamera rat
  | DepthCamera rat

text \<open>
  The array a \<open>_sensor_callback\<close> builds before it queues it. \<open>int(array.shape[0] / 4)\<close>
  is \<open>n div 4\<close> for the element count \<open>n\<close>.
\<close>

fun decode :: "sensor_class \<Rightarrow> SensorData \<Rightarrow> error + frame" where
  "decode Base d = Inl NotImplementedError"
| "decode (RGBCamera fov) d =
     (case reshape (frombuffer_uint8 (raw_data d)) [height d, width d, 4] of
        Inl e \<Rightarrow> Inl e
      | Inr a \<Rightarrow>
          (case slice_channels 3 a of
             Inl e \<Rightarrow> Inl e
           | Inr a' \<Rightarrow> Inr (UInt8Array a')))"
| "decode (LidarSensor channels rng) d =
     (case frombuffer_f4 (raw_data d) of
        Inl e \<Rightarrow> Inl e
      | Inr a \<Rightarrow>
          (case reshape a [hd (shape a) div 4, 4] of
             Inl e \<Rightarrow> Inl e
           | Inr a' \<Rightarrow> Inr (Float32Array a')))"
| "decode (SemanticCamera fov) d =
     (case reshape (frombuffer_uint8 (raw_data d)) [height d, width d, 4] of
        Inl e \<Rightarrow> Inl e
      | Inr a \<Rightarrow>
          (case channel0 a of
             Inl e \<Rightarrow> Inl e
           | Inr a' \<Rightarrow> Inr (UInt8Array a')))"
| "decode (DepthCamera fov) d =
     (case reshape (frombuffer_uint8 (raw_data d)) [height d, width d, 4] of
        Inl e \<Rightarrow> Inl e
      | Inr a \<Rightarrow>
          (case channel0 a of
             Inl e \<Rightarrow> Inl e
           | Inr a' \<Rightarrow> Inr (UInt8Array a')))"

section \<open>The simulator and the threads, as the code sees them\<close>

text \<open>
  The simulator client library and Python's threads are outside the repository. The
  record \<open>carla\<close> holds what the modelled code can observe or change through them: the
  identifiers of the blueprint library, the positions at which a spawn fails, the live
  actors with the blueprint, transform and parent they were spawned with, the actors that
  have a callback registered, every \<open>destroy()\<close> request received (oldest first), and the
  consumer threads that were started and have not exited.
\<close>

type_synonym actor = nat
type_synonym thread = nat
type_synonym vec3 = "rat \<times> rat \<times> rat"

record Transform =
  location :: vec3
  rotation :: vec3

datatype attr = Text string | TextOfFloat rat | TextOfInt int

record Blueprint =
  bp_id :: string
  attributes :: "(string \<times> attr) list"

record carla =
  library :: "string list"
  occupied :: "vec3 list"
  actors :: "(actor \<times> Blueprint \<times> Transform \<times> actor option) list"
  next_actor :: actor
  listening :: "actor list"
  destroy_requests :: "actor list"
  consumers :: "thread list"
  next_thread :: thread

text \<open>
  \<open>world.get_blueprint_library().find(id)\<close>. The facade tests the result for falsity
  (\<open>if not blueprint\<close>), so an identifier the library does not hold gives \<open>None\<close>.
\<close>

definition find_blueprint :: "carla \<Rightarrow> string \<Rightarrow> Blueprint option" where
  "find_blueprint w ident =
     (if ident \<in> set (library w) then Some \<lparr>bp_id = ident, attributes = []\<rparr> else None)"

definition set_attribute :: "Blueprint \<Rightarrow> string \<Rightarrow> attr \<Rightarrow> Blueprint" where
  "set_attribute bp k v = bp\<lparr>attributes := AList.update k v (attributes bp)\<rparr>"

text \<open>
  \<open>world.try_spawn_actor\<close> returns \<open>None\<close> when the spawn fails and changes nothing then;
  \<open>world.spawn_actor\<close> raises instead.
\<close>

definition try_spawn_actor ::
  "carla \<Rightarrow> Blueprint \<Rightarrow> Transform \<Rightarrow> actor option \<Rightarrow> actor option \<times> carla" where
  "try_spawn_actor w bp t parent =
     (if location t \<in> set (occupied w) then (None, w)
      else (Some (next_actor w),
            w\<lparr>actors := actors w @ [(next_actor w, bp, t, parent)],
               next_actor := Suc (next_actor w)\<rparr>))"

definition spawn_actor ::
  "carla \<Rightarrow> Blueprint \<Rightarrow> Transform \<Rightarrow> actor option \<Rightarrow> error + actor \<times> carla" where
  "spawn_actor w bp t parent =
     (case try_spawn_actor w bp t parent of
        (None, w') \<Rightarrow> Inl (RuntimeError ''Spawn failed because of collision at spawn position'')
      | (Some a, w') \<Rightarrow> Inr (a, w'))"

definition listen :: "carla \<Rightarrow> actor \<Rightarrow> carla" where
  "listen w a = w\<lparr>listening := listening w @ [a]\<rparr>"

text \<open>
  \<open>actor.destroy()\<close>: the request is recorded, the actor is no longer alive and no longer
  delivers frames.
\<close>

definition actor_destroy :: "carla \<Rightarrow> actor \<Rightarrow> carla" where
  "actor_destroy w a =
     w\<lparr>destroy_requests := destroy_requests w @ [a],
       actors := filter (\<lambda>x. fst x \<noteq> a) (actors w),
       listening := removeAll a (listening w)\<rparr>"

text \<open>
  \<open>threading.Thread(target=...).start()\<close> and \<open>thread.join()\<close>. A join returns once the
  thread has left its loop; the code only joins after it has cleared the flag the loop
  tests, and the loop waits at most 0.1 s for a frame before it tests the flag again.
\<close>

definition thread_start :: "carla \<Rightarrow> thread \<times> carla" where
  "thread_start w =
     (next_thread w,
      w\<lparr>consumers := consumers w @ [next_thread w], next_thread := Suc (next_thread w)\<rparr>)"

definition thread_join :: "carla \<Rightarrow> thread \<Rightarrow> carla" where
  "thread_join w t = w\<lparr>consumers := removeAll t (consumers w)\<rparr>"

section \<open>Sensor bridge (\<open>src/carla_interface/sensors.py\<close>)\<close>

record SensorConfig =
  cfg_location :: vec3
  cfg_rotation :: vec3
  attachment :: "actor option"

text \<open>
  The fields of \<open>BaseSensor\<close>; \<open>cls\<close> is the class of the object with the fields its
  constructor adds. The queue is the \<open>queue.Queue()\<close> of the object, oldest entry first;
  it is created without a size limit. The field \<open>world\<close> of the source is a handle on
  the simulator, whose state is passed along as a \<open>carla\<close> value.
\<close>

record BaseSensor =
  cls :: sensor_class
  config :: SensorConfig
  sensor :: "actor option"
  queue :: "frame list"
  thread :: "thread option"
  running :: bool

definition BaseSensor_init :: "sensor_class \<Rightarrow> SensorConfig \<Rightarrow> BaseSensor" where
  "BaseSensor_init c cfg =
     \<lparr>cls = c, config = cfg, sensor = None, queue = [], thread = None, running = False\<rparr>"

text \<open>
  The blueprint each \<open>spawn\<close> asks for and the attributes it sets (\<open>str(self.fov)\<close> and
  so on). \<open>BaseSensor.spawn\<close> raises \<open>NotImplementedError\<close>.
\<close>

fun blueprint_name :: "sensor_class \<Rightarrow> string" where
  "blueprint_name Base = []"
| "blueprint_name (RGBCamera fov) = ''sensor.camera.rgb''"
| "blueprint_name (LidarSensor channels rng) = ''sensor.lidar.ray_cast''"
| "blueprint_name (SemanticCamera fov) = ''sensor.camera.semantic_segmentation''"
| "blueprint_name (DepthCamera fov) = ''sensor.camera.depth''"

fun set_sensor_attributes :: "sensor_class \<Rightarrow> Blueprint \<Rightarrow> Blueprint" where
  "set_sensor_attributes Base bp = bp"
| "set_sensor_attributes (RGBCamera fov) bp = set_attribute bp ''fov'' (TextOfFloat fov)"
| "set_sensor_attributes (LidarSensor channels rng) bp =
     set_attribute (set_attribute bp ''channels'' (TextOfInt channels))
       ''range'' (TextOfFloat rng)"
| "set_sensor_attributes (SemanticCamera fov) bp = set_attribute bp ''fov'' (TextOfFloat fov)"
| "set_sensor_attributes (DepthCamera fov) bp = set_attribute bp ''fov'' (TextOfFloat fov)"

text \<open>
  \<open>spawn\<close> of the four sensor classes, which differ only in the blueprint. There is no
  test of the object's own state: the actor is created, stored in \<open>self.sensor\<close>, the
  callback registered, the flag set and a consumer thread started, whatever the fields
  held before.
\<close>

definition spawn :: "BaseSensor \<Rightarrow> carla \<Rightarrow> error + BaseSensor \<times> carla" where
  "spawn s w =
     (if cls s = Base then Inl NotImplementedError
      else
        case find_blueprint w (blueprint_name (cls s)) of
          None \<Rightarrow> Inl (AttributeError ''NoneType object has no attribute set_attribute'')
        | Some blueprint \<Rightarrow>
            (case spawn_actor w (set_sensor_attributes (cls s) blueprint)
                    \<lparr>location = cfg_location (config s), rotation = cfg_rotation (config s)\<rparr>
                    (attachment (config s)) of
               Inl e \<Rightarrow> Inl e
             | Inr (a, w1) \<Rightarrow>
                 (let w2 = listen w1 a;
                      (t, w3) = thread_start w2
                  in Inr (s\<lparr>sensor := Some a, running := True, thread := Some t\<rparr>, w3))))"

text \<open>
  \<open>BaseSensor.destroy\<close>: the flag is cleared, the thread in \<open>self.thread\<close> joined, the
  actor in \<open>self.sensor\<close> destroyed. Neither field is assigned.
\<close>

definition destroy :: "BaseSensor \<Rightarrow> carla \<Rightarrow> BaseSensor \<times> carla" where
  "destroy s w =
     (let s1 = s\<lparr>running := False\<rparr>;
          w1 = (case thread s1 of None \<Rightarrow> w | Some t \<Rightarrow> thread_join w t);
          w2 = (case sensor s1 of None \<Rightarrow> w1 | Some a \<Rightarrow> actor_destroy w1 a)
      in (s1, w2))"

text \<open>
  \<open>BaseSensor.get_data\<close>: \<open>queue.get_nowait()\<close> takes the oldest entry; on an empty
  queue it raises and the \<open>except\<close> returns \<open>None\<close>.
\<close>

definition get_data :: "BaseSensor \<Rightarrow> frame option \<times> BaseSensor" where
  "get_data s =
     (case queue s of
        [] \<Rightarrow> (None, s)
      | f # fs \<Rightarrow> (Some f, s\<lparr>queue := fs\<rparr>))"

text \<open>
  \<open>_sensor_callback\<close>: the decoded array is put at the end of the queue; an exception
  of the decode step leaves the object as it was.
\<close>

definition sensor_callback :: "BaseSensor \<Rightarrow> SensorData \<Rightarrow> error + BaseSensor" where
  "sensor_callback s d =
     (case decode (cls s) d of
        Inl e \<Rightarrow> Inl e
      | Inr array \<Rightarrow> Inr (s\<lparr>queue := queue s @ [array]\<rparr>))"

text \<open>
  One turn of the loop of \<open>_process_data\<close>, which runs in the consumer thread beside the
  callbacks and the caller of \<open>get_data\<close>: the flag is tested; when it is set,
  \<open>queue.get(timeout=0.1)\<close> takes the oldest entry and the entry is dropped, or the wait
  times out on an empty queue. The result says whether the loop goes on.
\<close>

definition process_data_step :: "BaseSensor \<Rightarrow> bool \<times> BaseSensor" where
  "process_data_step s =
     (if running s
      then (True, case queue s of [] \<Rightarrow> s | f # fs \<Rightarrow> s\<lparr>queue := fs\<rparr>)
      else (False, s))"

text \<open>
  A schedule is the order in which the three parties act on one bridge: the simulator
  delivers a raw frame, the consumer thread takes a turn, the caller polls. \<open>run\<close>
  returns the bridge and what the polls returned, in order. An exception in a callback
  is lost in the simulator's thread.
\<close>

datatype event = Deliver SensorData | Consume | Poll

fun run :: "BaseSensor \<Rightarrow> event list \<Rightarrow> BaseSensor \<times> frame option list" where
  "run s [] = (s, [])"
| "run s (Deliver d # evs) =
     (case sensor_callback s d of
        Inl e \<Rightarrow> run s evs
      | Inr s' \<Rightarrow> run s' evs)"
| "run s (Consume # evs) = run (snd (process_data_step s)) evs"
| "run s (Poll # evs) =
     (let (r, s') = get_data s;
          (s'', rs) = run s' evs
      in (s'', r # rs))"

text \<open>
  The frames the deliveries of a schedule put on the queue of a bridge of class \<open>c\<close>, in
  arrival order, and the frames among the results of the polls.
\<close>

fun decoded :: "sensor_class \<Rightarrow> event list \<Rightarrow> frame list" where
  "decoded c [] = []"
| "decoded c (Deliver d # evs) =
     (case decode c d of
        Inl e \<Rightarrow> decoded c evs
      | Inr f \<Rightarrow> f # decoded c evs)"
| "decoded c (Consume # evs) = decoded c evs"
| "decoded c (Poll # evs) = decoded c evs"

fun returned :: "frame option list \<Rightarrow> frame list" where
  "returned [] = []"
| "returned (None # rs) = returned rs"
| "returned (Some f # rs) = f # returned rs"

text \<open>
  A simulator for the examples: the blueprints the code asks for, nothing spawned, no
  position occupied, no thread started; and a camera bridge at the origin.
\<close>

definition fresh_carla :: carla where
  "fresh_carla =
     \<lparr>library = [''sensor.camera.rgb'', ''sensor.lidar.ray_cast'',
                 ''sensor.camera.semantic_segmentation'', ''sensor.camera.depth'',
                 ''vehicle.tesla.model3''],
      occupied = [], actors = [], next_actor = 0, listening = [], destroy_requests = [],
      consumers = [], next_thread = 0\<rparr>"

definition rgb0 :: BaseSensor where
  "rgb0 = BaseSensor_init (RGBCamera 90)
            \<lparr>cfg_location = (0, 0, 2), cfg_rotation = (0, 0, 0), attachment = None\<rparr>"

text \<open>The camera bridge and the simulator after \<open>spawn\<close> (see \<open>spawn_rgb0\<close> below).\<close>

definition rgb1 :: BaseSensor where
  "rgb1 = rgb0\<lparr>sensor := Some 0, running := True, thread := Some 0\<rparr>"

definition carla1 :: carla where
  "carla1 =
     fresh_carla\<lparr>actors :=
         [(0, \<lparr>bp_id = ''sensor.camera.rgb'', attributes = [(''fov'', TextOfFloat 90)]\<rparr>,
           \<lparr>location = (0, 0, 2), rotation = (0, 0, 0)\<rparr>, None)],
       next_actor := 1, listening := [0], consumers := [0], next_thread := 1\<rparr>"

text \<open>Two raw images of one pixel each, and the frames they decode to.\<close>

definition image_a :: SensorData where
  "image_a = \<lparr>height = 1, width = 1, raw_data = [10, 20, 30, 255]\<rparr>"

definition image_b :: SensorData where
  "image_b = \<lparr>height = 1, width = 1, raw_data = [40, 50, 60, 255]\<rparr>"

definition frame_a :: frame where
  "frame_a = UInt8Array \<lparr>shape = [1, 1, 3], data = [10, 20, 30]\<rparr>"

definition frame_b :: frame where
  "frame_b = UInt8Array \<lparr>shape = [1, 1, 3], data = [40, 50, 60]\<rparr>"

section \<open>Floating-point rounding\<close>

text \<open>
  A Python float is an IEEE 754 binary64 number, the fields of \<open>carla.Location\<close> and
  \<open>carla.Rotation\<close> are binary32 numbers. \<open>round_to p emin x\<close> is the number nearest to
  \<open>x\<close> among the multiples of the unit in the last place of \<open>x\<close> for a significand of \<open>p\<close>
  bits, a tie going to the even multiple; the unit is never smaller than \<open>2\<close> to the
  \<open>emin\<close> (the subnormal range). \<open>bit_length n\<close> is the number of binary digits of \<open>n\<close>,
  and \<open>exponent_of x\<close>, for a positive \<open>x\<close>, is the \<open>e\<close> with \<open>2\<close> to the \<open>e\<close> at most \<open>x\<close> and
  \<open>x\<close> below \<open>2\<close> to the \<open>e + 1\<close>. Infinities and NaN are not modelled: the results are
  those of the formats for magnitudes below their largest finite number.
\<close>

fun bit_length :: "nat \<Rightarrow> nat" where
  "bit_length n = (if n = 0 then 0 else Suc (bit_length (n div 2)))"

declare bit_length.simps [simp del]

definition pow2 :: "int \<Rightarrow> rat" where
  "pow2 k = (if 0 \<le> k then 2 ^ nat k else 1 / 2 ^ nat (- k))"

definition exponent_of :: "rat \<Rightarrow> int" where
  "exponent_of x =
     (if 1 \<le> x then int (bit_length (nat \<lfloor>x\<rfloor>)) - 1
      else - int (bit_length (nat (\<lceil>1 / x\<rceil> - 1))))"

definition round_half_even :: "rat \<Rightarrow> int" where
  "round_half_even q =
     (let f = \<lfloor>q\<rfloor>; r = q - of_int f
      in if r < 1 / 2 then f else if 1 / 2 < r then f + 1 else if even f then f else f + 1)"

definition round_to :: "nat \<Rightarrow> int \<Rightarrow> rat \<Rightarrow> rat" where
  "round_to p emin x =
     (if x = 0 then 0
      else let u = pow2 (max (exponent_of \<bar>x\<bar> - int p + 1) emin)
           in of_int (round_half_even (x / u)) * u)"

definition float32 :: "rat \<Rightarrow> rat" where
  "float32 x = round_to 24 (- 149) x"

definition float64 :: "rat \<Rightarrow> rat" where
  "float64 x = round_to 53 (- 1074) x"

text \<open>
  The largest finite 32-bit float, and the numbers a 32-bit field can hold.
\<close>

definition max_float32 :: rat where
  "max_float32 = (2 ^ 24 - 1) * 2 ^ 104"

definition is_float32 :: "rat \<Rightarrow> bool" where
  "is_float32 v \<longleftrightarrow> float32 v = v \<and> \<bar>v\<bar> \<le> max_float32"

section \<open>Simulator facade (\<open>src/carla_interface/simulator.py\<close>)\<close>

text \<open>
  The fields of \<open>CarlaSimulator\<close>. The client is the host and port it was made for, the
  world a handle; both dicts are association lists in insertion order.
\<close>

record CarlaSimulator =
  client :: "(string \<times> int) option"
  world :: "unit option"
  vehicle :: "actor option"
  sensors :: "(string \<times> actor) list"
  sensor_data :: "(string \<times> frame) list"

definition CarlaSimulator_init :: CarlaSimulator where
  "CarlaSimulator_init =
     \<lparr>client = None, world = None, vehicle = None, sensors = [], sensor_data = []\<rparr>"

text \<open>
  \<open>connect\<close>: \<open>got_world\<close> is the outcome of \<open>client.get_world()\<close>, the one call that
  reaches the server. The client is stored before the call, so it stays when the call
  raises and the exception is raised again.
\<close>

definition connect ::
  "CarlaSimulator \<Rightarrow> string \<Rightarrow> int \<Rightarrow> error + unit \<Rightarrow> error option \<times> CarlaSimulator" where
  "connect s host port got_world =
     (case got_world of
        Inl e \<Rightarrow> (Some e, s\<lparr>client := Some (host, port)\<rparr>)
      | Inr h \<Rightarrow> (None, s\<lparr>client := Some (host, port), world := Some h\<rparr>))"

text \<open>
  The transform argument of \<open>spawn_vehicle\<close>: a dict (numbers under the keys it is asked
  for, \<open>0\<close> for a missing key), a \<open>carla.Transform\<close>, or anything else. A rotation is
  pitch, yaw, roll. A \<open>carla.Transform\<close> holds 32-bit floats: its six numbers are values
  of \<open>float32\<close>. A number \<open>v\<close> of the dict goes through \<open>float(v)\<close> and is then stored in a
  32-bit field.
\<close>

datatype transform_arg =
    AsDict "(string \<times> rat) list"
  | AsTransform Transform
  | Other

definition dict_get :: "(string \<times> rat) list \<Rightarrow> string \<Rightarrow> rat \<Rightarrow> rat" where
  "dict_get d k dflt = (case map_of d k of None \<Rightarrow> dflt | Some v \<Rightarrow> v)"

fun to_transform :: "transform_arg \<Rightarrow> error + Transform" where
  "to_transform (AsDict d) =
     Inr \<lparr>location = (float32 (float64 (dict_get d ''x'' 0)),
                      float32 (float64 (dict_get d ''y'' 0)),
                      float32 (float64 (dict_get d ''z'' 0))),
          rotation = (float32 (float64 (dict_get d ''pitch'' 0)),
                      float32 (float64 (dict_get d ''yaw'' 0)),
                      float32 (float64 (dict_get d ''roll'' 0)))\<rparr>"
| "to_transform (AsTransform t) = Inr t"
| "to_transform Other =
     Inl (ValueError ''Transform must be either a dictionary or carla.Transform object'')"

text \<open>
  The dicts whose six numbers lie within the range of the 32-bit fields they are stored
  in (beyond it a field holds an infinity, or \<open>float\<close> raises).
\<close>

definition within_float32 :: "(string \<times> rat) list \<Rightarrow> bool" where
  "within_float32 d \<longleftrightarrow>
     list_all (\<lambda>k. \<bar>dict_get d k 0\<bar> \<le> max_float32)
       [''x'', ''y'', ''z'', ''pitch'', ''yaw'', ''roll'']"

text \<open>
  The spawn point built from the transform: a fresh location that takes \<open>x\<close> and \<open>y\<close>
  (32-bit floats, copied as they are) and \<open>transform.location.z + 0.2\<close>, with the rotation
  of the transform. The sum is a sum of Python floats, the literal \<open>0.2\<close> being the float
  nearest to it, and the result is stored in a 32-bit field.
\<close>

definition lift_spawn_point :: "Transform \<Rightarrow> Transform" where
  "lift_spawn_point t =
     (case location t of
        (x, y, z) \<Rightarrow>
          \<lparr>location = (x, y, float32 (float64 (z + float64 (2 / 10)))),
           rotation = rotation t\<rparr>)"

text \<open>
  \<open>spawn_vehicle\<close>. The \<open>RuntimeError\<close> raised inside the \<open>try\<close> for a \<open>None\<close> vehicle is
  caught by the \<open>except Exception\<close> of the same \<open>try\<close> and wrapped once more.
\<close>

definition spawn_vehicle ::
  "CarlaSimulator \<Rightarrow> carla \<Rightarrow> string \<Rightarrow> transform_arg \<Rightarrow> string
     \<Rightarrow> error + actor \<times> CarlaSimulator \<times> carla" where
  "spawn_vehicle s w model transform rolename =
     (if world s = None
      then Inl (RuntimeError ''Cannot spawn vehicle: World is not connected'')
      else
        case find_blueprint w model of
          None \<Rightarrow>
            Inl (ValueError (''Vehicle model '' @ [CHR 0x27] @ model @ [CHR 0x27] @ '' not found''))
        | Some blueprint \<Rightarrow>
            (case to_transform transform of
               Inl e \<Rightarrow> Inl e
             | Inr t \<Rightarrow>
                 (case
                    (case try_spawn_actor w (set_attribute blueprint ''role_name'' (Text rolename))
                            (lift_spawn_point t) None of
                       (None, w') \<Rightarrow>
                         Inl (RuntimeError
                           ''Failed to spawn vehicle: Spawn failed because of collision at spawn position'')
                     | (Some v, w') \<Rightarrow> Inr (v, s\<lparr>vehicle := Some v\<rparr>, w'))
                  of
                    Inl e \<Rightarrow> Inl (RuntimeError (''Failed to spawn vehicle: '' @ str e))
                  | Inr r \<Rightarrow> Inr r)))"

text \<open>
  \<open>add_rgb_camera\<close> and \<open>add_lidar\<close>: the sensor is spawned on the vehicle, stored under
  its name (a name already there is overwritten) and its callback registered.
\<close>

definition add_rgb_camera ::
  "CarlaSimulator \<Rightarrow> carla \<Rightarrow> string \<Rightarrow> vec3 \<Rightarrow> vec3 \<Rightarrow> rat \<Rightarrow> error + CarlaSimulator \<times> carla" where
  "add_rgb_camera s w name position rot fov =
     (case vehicle s of
        None \<Rightarrow> Inl (RuntimeError ''No vehicle spawned'')
      | Some v \<Rightarrow>
          (case find_blueprint w ''sensor.camera.rgb'' of
             None \<Rightarrow> Inl (AttributeError ''NoneType object has no attribute set_attribute'')
           | Some blueprint \<Rightarrow>
               (case spawn_actor w
                       (set_attribute (set_attribute (set_attribute blueprint
                          ''image_size_x'' (Text ''960''))
                          ''image_size_y'' (Text ''480''))
                          ''fov'' (TextOfFloat fov))
                       \<lparr>location = position, rotation = rot\<rparr> (Some v) of
                  Inl e \<Rightarrow> Inl e
                | Inr (camera, w1) \<Rightarrow>
                    Inr (s\<lparr>sensors := AList.update name camera (sensors s)\<rparr>, listen w1 camera))))"

definition add_lidar ::
  "CarlaSimulator \<Rightarrow> carla \<Rightarrow> string \<Rightarrow> vec3 \<Rightarrow> vec3 \<Rightarrow> int \<Rightarrow> rat
     \<Rightarrow> error + CarlaSimulator \<times> carla" where
  "add_lidar s w name position rot channels rng =
     (case vehicle s of
        None \<Rightarrow> Inl (RuntimeError ''No vehicle spawned'')
      | Some v \<Rightarrow>
          (case find_blueprint w ''sensor.lidar.ray_cast'' of
             None \<Rightarrow> Inl (AttributeError ''NoneType object has no attribute set_attribute'')
           | Some blueprint \<Rightarrow>
               (case spawn_actor w
                       (set_attribute (set_attribute blueprint
                          ''channels'' (TextOfInt channels))
                          ''range'' (TextOfFloat rng))
                       \<lparr>location = position, rotation = rot\<rparr> (Some v) of
                  Inl e \<Rightarrow> Inl e
                | Inr (lidar, w1) \<Rightarrow>
                    Inr (s\<lparr>sensors := AList.update name lidar (sensors s)\<rparr>, listen w1 lidar))))"

text \<open>
  The two callbacks decode as the camera and range-sensor bridges do and keep the
  latest array under the sensor's name.
\<close>

definition on_camera_data :: "CarlaSimulator \<Rightarrow> string \<Rightarrow> SensorData \<Rightarrow> error + CarlaSimulator" where
  "on_camera_data s name d =
     (case decode (RGBCamera 90) d of
        Inl e \<Rightarrow> Inl e
      | Inr array \<Rightarrow> Inr (s\<lparr>sensor_data := AList.update name array (sensor_data s)\<rparr>))"

definition on_lidar_data :: "CarlaSimulator \<Rightarrow> string \<Rightarrow> SensorData \<Rightarrow> error + CarlaSimulator" where
  "on_lidar_data s name d =
     (case decode (LidarSensor 64 100) d of
        Inl e \<Rightarrow> Inl e
      | Inr array \<Rightarrow> Inr (s\<lparr>sensor_data := AList.update name array (sensor_data s)\<rparr>))"

definition get_sensor_data :: "CarlaSimulator \<Rightarrow> (string \<times> frame) list" where
  "get_sensor_data s = sensor_data s"

text \<open>
  \<open>disconnect\<close>: every stored sensor is destroyed in the order of the dict, then the
  vehicle when there is one, then the five fields are reset. No statement of it raises
  and none is skipped.
\<close>

definition disconnect :: "CarlaSimulator \<Rightarrow> carla \<Rightarrow> CarlaSimulator \<times> carla" where
  "disconnect s w =
     (let w1 = fold (\<lambda>a w'. actor_destroy w' a) (map snd (sensors s)) w;
          w2 = (case vehicle s of None \<Rightarrow> w1 | Some v \<Rightarrow> actor_destroy w1 v)
      in (\<lparr>client = None, world = None, vehicle = None, sensors = [], sensor_data = []\<rparr>, w2))"

text \<open>
  For the examples: a facade after a successful \<open>connect\<close>, and a pose given as a dict.
\<close>

definition connected :: CarlaSimulator where
  "connected = CarlaSimulator_init\<lparr>client := Some (''localhost'', 2000), world := Some ()\<rparr>"

definition pose :: transform_arg where
  "pose = AsDict [(''x'', 10), (''y'', 20), (''z'', 1 / 2), (''yaw'', 90)]"

section \<open>Renderer (\<open>src/visualization/renderer.py\<close>)\<close>

text \<open>
  The renderer is modelled over any type \<open>'f\<close> of images. The OpenCV calls that change
  pixels are parameters: the colour conversion and the two overlays drawn by
  \<open>_draw_control_info\<close> and \<open>_draw_debug_info\<close>. A video writer is the path it was
  opened on and the frames written to it; the files written by \<open>cv2.imwrite\<close> are a map
  from paths to images. The directory the constructor creates is not modelled.
\<close>

record 'f drawing =
  cvtColor :: "'f \<Rightarrow> 'f"
  draw_control_info :: "'f \<Rightarrow> rat \<Rightarrow> rat \<Rightarrow> 'f"
  draw_debug_info :: "'f \<Rightarrow> (string \<times> string) list \<Rightarrow> 'f"

record 'f VideoWriter =
  vw_path :: string
  vw_fps :: int
  vw_size :: "nat \<times> nat"
  written :: "'f list"

record 'f Renderer =
  output_dir :: string
  save_video :: bool
  fps :: int
  video_writer :: "'f VideoWriter option"
  frame_count :: nat

text \<open>\<open>self.output_dir / filename\<close>: an absolute file name replaces the directory.\<close>

definition path_join :: "string \<Rightarrow> string \<Rightarrow> string" where
  "path_join dir name =
     (case name of
        [] \<Rightarrow> dir
      | c # cs \<Rightarrow> if c = CHR ''/'' then name else dir @ ''/'' @ name)"

definition Renderer_init :: "string \<Rightarrow> bool \<Rightarrow> int \<Rightarrow> 'f Renderer" where
  "Renderer_init dir sv f =
     \<lparr>output_dir = dir, save_video = sv, fps = f, video_writer = None, frame_count = 0\<rparr>"

definition setup_video_writer :: "'f Renderer \<Rightarrow> nat \<Rightarrow> nat \<Rightarrow> string \<Rightarrow> 'f Renderer" where
  "setup_video_writer r w h filename =
     (if \<not> save_video r then r
      else r\<lparr>video_writer :=
                Some \<lparr>vw_path = path_join (output_dir r) filename, vw_fps = fps r,
                      vw_size = (w, h), written = []\<rparr>\<rparr>)"

text \<open>
  \<open>render_frame\<close>: the frame is converted and annotated; it is written and counted
  only under \<open>self.save_video and self.video_writer is not None\<close>. An empty
  \<open>debug_info\<close> is false in Python.
\<close>

definition render_frame ::
  "'f drawing \<Rightarrow> 'f Renderer \<Rightarrow> 'f \<Rightarrow> (rat \<times> rat) option \<Rightarrow> (string \<times> string) list option
     \<Rightarrow> 'f \<times> 'f Renderer" where
  "render_frame dr r camera_image model_output debug_info =
     (let frame0 = cvtColor dr camera_image;
          frame1 = (case model_output of
                      None \<Rightarrow> frame0
                    | Some (steering, throttle) \<Rightarrow> draw_control_info dr frame0 steering throttle);
          frame = (case debug_info of
                     None \<Rightarrow> frame1
                   | Some info \<Rightarrow> if info = [] then frame1 else draw_debug_info dr frame1 info)
      in case video_writer r of
           None \<Rightarrow> (frame, r)
         | Some vw \<Rightarrow>
             if save_video r
             then (frame, r\<lparr>video_writer := Some (vw\<lparr>written := written vw @ [frame]\<rparr>),
                            frame_count := frame_count r + 1\<rparr>)
             else (frame, r))"

text \<open>
  \<open>f"frame_{self.frame_count:06d}.jpg"\<close>: the decimal digits of the count, padded with
  zeros on the left to six characters.
\<close>

definition digit :: "nat \<Rightarrow> char" where
  "digit d = ''0123456789'' ! d"

fun decimal :: "nat \<Rightarrow> string" where
  "decimal n = (if n < 10 then [digit n] else decimal (n div 10) @ [digit (n mod 10)])"

declare decimal.simps [simp del]

definition format_06d :: "nat \<Rightarrow> string" where
  "format_06d n = replicate (6 - length (decimal n)) (CHR ''0'') @ decimal n"

definition auto_filename :: "'f Renderer \<Rightarrow> string" where
  "auto_filename r = ''frame_'' @ format_06d (frame_count r) @ ''.jpg''"

definition save_frame ::
  "'f Renderer \<Rightarrow> (string \<rightharpoonup> 'f) \<Rightarrow> 'f \<Rightarrow> string option \<Rightarrow> (string \<rightharpoonup> 'f)" where
  "save_frame r files frame filename =
     (let name = (case filename of None \<Rightarrow> auto_filename r | Some n \<Rightarrow> n)
      in files(path_join (output_dir r) name \<mapsto> frame))"

definition cleanup :: "'f Renderer \<Rightarrow> 'f Renderer" where
  "cleanup r = r\<lparr>video_writer := None\<rparr>"

text \<open>
  A use of a renderer is a sequence of calls of its methods; \<open>calls\<close> runs one on the
  renderer and the files on disk.
\<close>

datatype 'f method_call =
    SetupVideoWriter nat nat string
  | RenderFrame 'f "(rat \<times> rat) option" "(string \<times> string) list option"
  | SaveFrame 'f "string option"
  | Cleanup

fun call :: "'f drawing \<Rightarrow> 'f method_call \<Rightarrow> 'f Renderer \<times> (string \<rightharpoonup> 'f) \<Rightarrow> 'f Renderer \<times> (string \<rightharpoonup> 'f)" where
  "call dr (SetupVideoWriter w h filename) (r, files) = (setup_video_writer r w h filename, files)"
| "call dr (RenderFrame img out info) (r, files) = (snd (render_frame dr r img out info), files)"
| "call dr (SaveFrame frame filename) (r, files) = (r, save_frame r files frame filename)"
| "call dr Cleanup (r, files) = (cleanup r, files)"

definition calls ::
  "'f drawing \<Rightarrow> 'f method_call list \<Rightarrow> 'f Renderer \<times> (string \<rightharpoonup> 'f) \<Rightarrow> 'f Renderer \<times> (string \<rightharpoonup> 'f)" where
  "calls dr cs st = fold (call dr) cs st"

fun is_setup :: "'f method_call \<Rightarrow> bool" where
  "is_setup (SetupVideoWriter w h filename) = True"
| "is_setup c = False"

text \<open>
  For the examples: images are numbers, drawing changes nothing, and a session that
  sets up a writer, renders two frames and saves each as a still without a file name.
\<close>

definition plain_drawing :: "nat drawing" where
  "plain_drawing =
     \<lparr>cvtColor = (\<lambda>img. img), draw_control_info = (\<lambda>img steering throttle. img),
      draw_debug_info = (\<lambda>img info. img)\<rparr>"

definition session :: "nat method_call list" where
  "session =
     [SetupVideoWriter 960 480 ''output.mp4'',
      RenderFrame 1 None None, SaveFrame 1 None,
      RenderFrame 2 None None, SaveFrame 2 None]"

section \<open>Properties of the settings merge\<close>

lemma update_dict_replace:
  "\<not> is_dict v \<Longrightarrow> update_dict d ((k, v) # rest) =
     (case py_setitem d k v of Inl e \<Rightarrow> Inl e | Inr d' \<Rightarrow> update_dict d' rest)"
  by (cases v) simp_all

lemma merged_at_cong:
  "map_of ds k = map_of ds' k \<Longrightarrow> map_of u k = map_of u' k \<Longrightarrow>
   merged_at ds u k r = merged_at ds' u' k r"
  unfolding merged_at_def by (erule subst, erule subst) (rule refl)

lemma update_dict_keywise:
  "distinct (map fst u) \<Longrightarrow> update_dict (PDict ds) u = Inr r \<Longrightarrow>
   \<exists>rs. r = PDict rs \<and> (\<forall>k. merged_at ds u k (map_of rs k))"
proof (induction u arbitrary: ds)
  case Nil
  then show ?case by (auto simp: merged_at_def)
next
  case (Cons kv u)
  obtain k' v' where kv: "kv = (k', v')" by (cases kv)
  from Cons.prems(1) kv have dist: "distinct (map fst u)" and fresh: "map_of u k' = None"
    by (auto simp: map_of_eq_None_iff)
  define x where "x = (case v' of
       PDict ws \<Rightarrow>
         (case update_dict (case map_of ds k' of None \<Rightarrow> PDict [] | Some y \<Rightarrow> y) ws of
            Inr m \<Rightarrow> m | Inl e \<Rightarrow> PNone)
     | _ \<Rightarrow> v')"
  have step: "update_dict (PDict (AList.update k' x ds)) u = Inr r
      \<and> merged_at ds (kv # u) k' (Some x)"
  proof (cases "is_dict v'")
    case True
    then obtain ws where v': "v' = PDict ws" by (cases v') simp_all
    with Cons.prems(2) kv show ?thesis
      by (auto simp: x_def merged_at_def split: sum.splits)
  next
    case False
    with Cons.prems(2) kv show ?thesis
      by (cases v') (auto simp: x_def merged_at_def update_dict_replace)
  qed
  from Cons.IH[OF dist conjunct1[OF step]]
  obtain rs where rs: "r = PDict rs"
    and all: "\<forall>k. merged_at (AList.update k' x ds) u k (map_of rs k)"
    by blast
  have "merged_at ds (kv # u) k (map_of rs k)" for k
  proof (cases "k = k'")
    case True
    from all have "merged_at (AList.update k' x ds) u k' (map_of rs k')" by blast
    with fresh have "map_of rs k' = Some x" by (simp add: merged_at_def update_conv')
    with step True show ?thesis by simp
  next
    case False
    from all have "merged_at (AList.update k' x ds) u k (map_of rs k)" by blast
    moreover have "map_of (AList.update k' x ds) k = map_of ds k"
      using False by (simp add: update_conv')
    moreover have "map_of u k = map_of (kv # u) k"
      using False kv by simp
    ultimately show ?thesis using merged_at_cong by metis
  qed
  with rs show ?case by blast
qed

text \<open>
  Claim C8. The merge applies the user's settings over the defaults key by key, merging
  a dict-valued key recursively and replacing every other key: the defaults
  \<open>{a: {x: 1, y: 2}}\<close> with the override \<open>{a: {y: 3, z: 4}}\<close> give
  \<open>{a: {x: 1, y: 3, z: 4}}\<close>; and whenever a merge of an override with distinct keys over
  a dict returns, the result is a dict that holds under each key what \<open>merged_at\<close> says.
\<close>

theorem update_dict_merges:
  "update_dict (PDict [(''a'', PDict [(''x'', PInt 1), (''y'', PInt 2)])])
       [(''a'', PDict [(''y'', PInt 3), (''z'', PInt 4)])]
     = Inr (PDict [(''a'', PDict [(''x'', PInt 1), (''y'', PInt 3), (''z'', PInt 4)])])
   \<and> (distinct (map fst u) \<and> update_dict (PDict ds) u = Inr r \<longrightarrow>
        (\<exists>rs. r = PDict rs \<and> (\<forall>k. merged_at ds u k (map_of rs k))))"
  using update_dict_keywise by simp

theorem update_dict_merges_witness:
  "distinct (map fst [(''carla'', PDict [(''port'', PInt 2001)]), (''seed'', PInt 7)])
   \<and> update_dict (PDict [(''carla'', PDict [(''host'', PStr ''localhost''), (''port'', PInt 2000)])])
        [(''carla'', PDict [(''port'', PInt 2001)]), (''seed'', PInt 7)]
      = Inr (PDict [(''carla'', PDict [(''host'', PStr ''localhost''), (''port'', PInt 2001)]),
                    (''seed'', PInt 7)])
   \<and> merged_at [(''carla'', PDict [(''host'', PStr ''localhost''), (''port'', PInt 2000)])]
        [(''carla'', PDict [(''port'', PInt 2001)]), (''seed'', PInt 7)] ''carla''
        (Some (PDict [(''host'', PStr ''localhost''), (''port'', PInt 2001)]))"
proof -
  let ?ds = "[(''carla'', PDict [(''host'', PStr ''localhost''), (''port'', PInt 2000)])]"
  let ?u = "[(''carla'', PDict [(''port'', PInt 2001)]), (''seed'', PInt 7)]"
  let ?rs = "[(''carla'', PDict [(''host'', PStr ''localhost''), (''port'', PInt 2001)]),
              (''seed'', PInt 7)]"
  have d: "distinct (map fst ?u)" by simp
  have r: "update_dict (PDict ?ds) ?u = Inr (PDict ?rs)" by simp
  from update_dict_merges[of ?u ?ds "PDict ?rs"] d r
  have "\<forall>k. merged_at ?ds ?u k (map_of ?rs k)" by blast
  then have "merged_at ?ds ?u ''carla'' (map_of ?rs ''carla'')" by blast
  with d r show ?thesis by simp
qed

lemma update_dict_scalar_raises:
  "is_scalar s \<Longrightarrow> \<exists>e. update_dict s (kv # kvs) = Inl e"
  by (cases s; cases kv; cases "snd kv") auto

lemma update_dict_entry_raises:
  "map_of u k = Some (PDict vs) \<Longrightarrow>
   update_dict (case map_of ds k of None \<Rightarrow> PDict [] | Some v \<Rightarrow> v) vs = Inl e0 \<Longrightarrow>
   \<exists>e. update_dict (PDict ds) u = Inl e"
proof (induction u arbitrary: ds)
  case Nil
  then show ?case by simp
next
  case (Cons kv u)
  obtain k' v' where kv: "kv = (k', v')" by (cases kv)
  show ?case
  proof (cases "k' = k")
    case True
    with Cons.prems kv have "v' = PDict vs" by simp
    with Cons.prems kv True show ?thesis by simp
  next
    case False
    with Cons.prems kv have u: "map_of u k = Some (PDict vs)" by simp
    have keep: "\<And>x. map_of (AList.update k' x ds) k = map_of ds k"
      using False by (simp add: update_conv')
    show ?thesis
    proof (cases "is_dict v'")
      case True
      then obtain ws where v': "v' = PDict ws" by (cases v') simp_all
      show ?thesis
      proof (cases "update_dict (case map_of ds k' of None \<Rightarrow> PDict [] | Some v \<Rightarrow> v) ws")
        case (Inl e)
        then show ?thesis using kv v' by simp
      next
        case (Inr r)
        from Cons.IH[OF u, of "AList.update k' r ds"] Cons.prems(2) keep
        obtain e where "update_dict (PDict (AList.update k' r ds)) u = Inl e" by auto
        then show ?thesis using kv v' Inr by simp
      qed
    next
      case nd: False
      from Cons.IH[OF u, of "AList.update k' v' ds"] Cons.prems(2) keep
      obtain e where "update_dict (PDict (AList.update k' v' ds)) u = Inl e" by auto
      then show ?thesis using kv nd by (simp add: update_dict_replace)
    qed
  qed
qed

lemma update_dict_path_raises:
  "lookup_path d p = Some s \<Longrightarrow> is_scalar s \<Longrightarrow>
   lookup_path (PDict u) p = Some (PDict (kv # kvs)) \<Longrightarrow>
   \<exists>e. update_dict d u = Inl e"
proof (induction p arbitrary: d u)
  case Nil
  then show ?case using update_dict_scalar_raises by simp
next
  case (Cons k ks)
  from Cons.prems(1) obtain ds dv where d: "d = PDict ds" and dv: "map_of ds k = Some dv"
    and dvs: "lookup_path dv ks = Some s"
    by (cases d) (auto split: option.splits)
  from Cons.prems(3) obtain uv where uv: "map_of u k = Some uv"
    and uvs: "lookup_path uv ks = Some (PDict (kv # kvs))"
    by (auto split: option.splits)
  from uvs obtain us where us: "uv = PDict us"
    by (cases uv; cases ks) auto
  from Cons.IH[OF dvs Cons.prems(2)] uvs us
  obtain e where "update_dict dv us = Inl e" by auto
  with update_dict_entry_raises[of u k us ds e] uv us dv d show ?case by simp
qed

lemma update_dict_empty_keeps:
  "lookup_path d (k # ks) = Some s \<Longrightarrow> update_dict d [(k, nest ks (PDict []))] = Inr d"
proof (induction ks arbitrary: d k)
  case Nil
  then obtain ds where "d = PDict ds" "map_of ds k = Some s"
    by (cases d) (auto split: option.splits)
  then show ?case by (simp add: update_triv)
next
  case (Cons k2 ks)
  from Cons.prems obtain ds dv where d: "d = PDict ds" and dv: "map_of ds k = Some dv"
    and dvs: "lookup_path dv (k2 # ks) = Some s"
    by (cases d) (auto split: option.splits)
  from Cons.IH[OF dvs] d dv show ?case by (simp add: update_triv)
qed

text \<open>
  Claim C9, as stated: whenever the override holds a dict at a key path where the
  default holds a scalar, the merge raises. It does not for the empty dict: the override
  \<open>{carla: {port: {}}}\<close> over the defaults returns the defaults unchanged, and
  \<open>load_config\<close> returns normally.
\<close>

theorem update_dict_empty_over_scalar_counterexample:
  "lookup_path load_default_settings [''carla'', ''port''] = Some (PInt 2000)
   \<and> is_scalar (PInt 2000)
   \<and> lookup_path (PDict [(''carla'', PDict [(''port'', PDict [])])]) [''carla'', ''port'']
        = Some (PDict [])
   \<and> update_dict load_default_settings [(''carla'', PDict [(''port'', PDict [])])]
        = Inr load_default_settings
   \<and> load_config \<lparr>config_path = Some ''config.yaml'', settings = load_default_settings\<rparr>
        (Inr (PDict [(''carla'', PDict [(''port'', PDict [])])]))
        = Inr \<lparr>config_path = Some ''config.yaml'', settings = load_default_settings\<rparr>"
  by (simp add: load_default_settings_def load_config_def)

text \<open>
  Claim C9, amended. If the override maps a key path to a non-empty dict while the
  value the base dictionary holds at that path is a scalar (not a dict, not a list),
  \<open>_update_dict\<close> raises, and so does \<open>load_config\<close> on settings holding that dictionary.
  An override that holds only an empty dict under a key path present in the base
  dictionary raises nothing and returns the dictionary unchanged.
\<close>

theorem update_dict_nonempty_over_scalar_raises:
  "(lookup_path d p = Some s \<and> is_scalar s
      \<and> lookup_path (PDict u) p = Some (PDict (kv # kvs)) \<longrightarrow>
      (\<exists>e. update_dict d u = Inl e)
      \<and> (\<exists>e. load_config \<lparr>config_path = path, settings = d\<rparr> (Inr (PDict u)) = Inl e))
   \<and> (lookup_path d (k # ks) = Some s \<longrightarrow>
        update_dict d [(k, nest ks (PDict []))] = Inr d)"
  using update_dict_path_raises[of d p s u kv kvs] update_dict_empty_keeps[of d k ks s]
  by (auto simp: load_config_def)

theorem update_dict_nonempty_over_scalar_raises_witness:
  "lookup_path load_default_settings [''carla'', ''port''] = Some (PInt 2000)
   \<and> is_scalar (PInt 2000)
   \<and> lookup_path (PDict [(''carla'', PDict [(''port'', PDict [(''http'', PInt 80)])])])
        [''carla'', ''port''] = Some (PDict [(''http'', PInt 80)])
   \<and> (\<exists>e. update_dict load_default_settings
              [(''carla'', PDict [(''port'', PDict [(''http'', PInt 80)])])] = Inl e)
   \<and> update_dict load_default_settings [(''carla'', nest [''port''] (PDict []))]
        = Inr load_default_settings"
proof -
  have 1: "lookup_path load_default_settings [''carla'', ''port''] = Some (PInt 2000)"
    by (simp add: load_default_settings_def)
  have 2: "is_scalar (PInt 2000)" by simp
  have 3: "lookup_path (PDict [(''carla'', PDict [(''port'', PDict [(''http'', PInt 80)])])])
        [''carla'', ''port''] = Some (PDict [(''http'', PInt 80)])" by simp
  from update_dict_nonempty_over_scalar_raises
         [of load_default_settings "[''carla'', ''port'']" "PInt 2000"
             "[(''carla'', PDict [(''port'', PDict [(''http'', PInt 80)])])]"
             "(''http'', PInt 80)" "[]" None "''carla''" "[''port'']"]
       1 2 3
  show ?thesis by blast
qed

section \<open>Properties of the decode step\<close>

lemma length_f4_elements: "length (f4_elements raw) = length raw div 4"
  by (induction raw rule: f4_elements.induct) simp_all

lemma nth_f4_elements:
  "i < length raw div 4 \<Longrightarrow>
   f4_elements raw ! i =
     (ucast (raw ! (4 * i)) OR push_bit 8 (ucast (raw ! (4 * i + 1)))
      OR push_bit 16 (ucast (raw ! (4 * i + 2))) OR push_bit 24 (ucast (raw ! (4 * i + 3))))"
proof (induction raw arbitrary: i rule: f4_elements.induct)
  case (1 b0 b1 b2 b3 rest)
  show ?case
  proof (cases i)
    case 0
    then show ?thesis by simp
  next
    case (Suc j)
    with "1.prems" have "j < length rest div 4" by simp
    from "1.IH"[OF this] Suc show ?thesis by (simp add: numeral_eq_Suc)
  qed
qed simp_all

lemma rgb_decode:
  assumes "length (raw_data d) = height d * width d * 4"
  shows "\<exists>a. decode (RGBCamera fov) d = Inr (UInt8Array a)
           \<and> shape a = [height d, width d, 3]
           \<and> length (data a) = height d * width d * 3
           \<and> (\<forall>p < height d * width d. \<forall>c < 3.
                 data a ! (3 * p + c) = raw_data d ! (4 * p + c))"
proof -
  let ?a = "\<lparr>shape = [height d, width d, 3],
             data = map (\<lambda>i. raw_data d ! (4 * (i div 3) + i mod 3))
                        [0 ..< height d * width d * 3]\<rparr>"
  have dec: "decode (RGBCamera fov) d = Inr (UInt8Array ?a)"
    using assms by (simp add: reshape_def frombuffer_uint8_def slice_channels_def)
  have nth: "data ?a ! (3 * p + c) = raw_data d ! (4 * p + c)"
    if "p < height d * width d" "c < 3" for p c
  proof -
    from that have "3 * p + c < height d * width d * 3" by simp
    then show ?thesis using that by simp
  qed
  from dec nth show ?thesis by (intro exI[of _ ?a]) simp
qed

lemma channel0_decode:
  assumes "length (raw_data d) = height d * width d * 4"
  shows "\<exists>a. decode (SemanticCamera fov) d = Inr (UInt8Array a)
           \<and> decode (DepthCamera fov) d = Inr (UInt8Array a)
           \<and> shape a = [height d, width d]
           \<and> length (data a) = height d * width d
           \<and> (\<forall>p < height d * width d. data a ! p = raw_data d ! (4 * p))"
  using assms
  by (intro exI[of _ "\<lparr>shape = [height d, width d],
         data = map (\<lambda>p. raw_data d ! (4 * p)) [0 ..< height d * width d]\<rparr>"])
     (simp add: reshape_def frombuffer_uint8_def channel0_def)

lemma lidar_decode:
  assumes "length (raw_data d) = 4 * (4 * n)"
  shows "\<exists>a. decode (LidarSensor channels rng) d = Inr (Float32Array a)
           \<and> shape a = [n, 4]
           \<and> length (data a) = 4 * n
           \<and> (\<forall>i < 4 * n. data a ! i =
                 (ucast (raw_data d ! (4 * i)) OR push_bit 8 (ucast (raw_data d ! (4 * i + 1)))
                  OR push_bit 16 (ucast (raw_data d ! (4 * i + 2)))
                  OR push_bit 24 (ucast (raw_data d ! (4 * i + 3)))))"
proof -
  let ?a = "\<lparr>shape = [n, 4], data = f4_elements (raw_data d)\<rparr>"
  have dec: "decode (LidarSensor channels rng) d = Inr (Float32Array ?a)"
    using assms by (simp add: frombuffer_f4_def reshape_def length_f4_elements)
  have "length (raw_data d) div 4 = 4 * n" using assms by simp
  with dec show ?thesis
    by (intro exI[of _ ?a]) (simp add: length_f4_elements nth_f4_elements)
qed


text \<open>
  Claim C5. A buffer of the documented size decodes to an array of the documented shape
  and element type. For an image of height \<open>H\<close> and width \<open>W\<close> with \<open>H * W * 4\<close> bytes, the
  RGB camera yields a \<open>uint8\<close> array of shape \<open>(H, W, 3)\<close> whose pixel \<open>p\<close> holds the first
  three of the four bytes of pixel \<open>p\<close> of the buffer; the semantic and the depth camera
  yield a \<open>uint8\<close> array of shape \<open>(H, W)\<close> that holds byte 0 of each pixel. A range-sensor
  buffer of \<open>4 * N\<close> floats of four bytes each yields a \<open>float32\<close> array of shape \<open>(N, 4)\<close>
  holding the floats in their order.
\<close>

theorem decode_shapes:
  "(length (raw_data d) = height d * width d * 4 \<longrightarrow>
      (\<exists>a. decode (RGBCamera fov) d = Inr (UInt8Array a)
           \<and> shape a = [height d, width d, 3]
           \<and> length (data a) = height d * width d * 3
           \<and> (\<forall>p < height d * width d. \<forall>c < 3.
                 data a ! (3 * p + c) = raw_data d ! (4 * p + c)))
    \<and> (\<exists>a. decode (SemanticCamera fov) d = Inr (UInt8Array a)
           \<and> decode (DepthCamera fov) d = Inr (UInt8Array a)
           \<and> shape a = [height d, width d]
           \<and> length (data a) = height d * width d
           \<and> (\<forall>p < height d * width d. data a ! p = raw_data d ! (4 * p))))
   \<and> (length (raw_data d) = 4 * (4 * n) \<longrightarrow>
      (\<exists>a. decode (LidarSensor channels rng) d = Inr (Float32Array a)
           \<and> shape a = [n, 4]
           \<and> length (data a) = 4 * n
           \<and> (\<forall>i < 4 * n. data a ! i =
                 (ucast (raw_data d ! (4 * i)) OR push_bit 8 (ucast (raw_data d ! (4 * i + 1)))
                  OR push_bit 16 (ucast (raw_data d ! (4 * i + 2)))
                  OR push_bit 24 (ucast (raw_data d ! (4 * i + 3)))))))"
  using rgb_decode[of d fov] channel0_decode[of d fov] lidar_decode[of d n channels rng]
  by blast

theorem decode_shapes_witness:
  "length (raw_data \<lparr>height = 1, width = 2, raw_data = [1, 2, 3, 255, 4, 5, 6, 255]\<rparr>)
     = height \<lparr>height = 1, width = 2, raw_data = [1, 2, 3, 255, 4, 5, 6, 255]\<rparr>
       * width \<lparr>height = 1, width = 2, raw_data = [1, 2, 3, 255, 4, 5, 6, 255]\<rparr> * 4
   \<and> (\<exists>a. decode (RGBCamera 90) \<lparr>height = 1, width = 2, raw_data = [1, 2, 3, 255, 4, 5, 6, 255]\<rparr>
             = Inr (UInt8Array a)
          \<and> shape a = [1, 2, 3] \<and> length (data a) = 6 \<and> data a ! 3 = 4 \<and> data a ! 5 = 6)
   \<and> (\<exists>a. decode (DepthCamera 90) \<lparr>height = 1, width = 2, raw_data = [1, 2, 3, 255, 4, 5, 6, 255]\<rparr>
             = Inr (UInt8Array a)
          \<and> shape a = [1, 2] \<and> length (data a) = 2 \<and> data a ! 1 = 4)
   \<and> length (raw_data \<lparr>height = 0, width = 0,
         raw_data = [0, 0, 128, 63, 0, 0, 0, 64, 0, 0, 64, 64, 0, 0, 128, 64]\<rparr>) = 4 * (4 * 1)
   \<and> (\<exists>a. decode (LidarSensor 32 50) \<lparr>height = 0, width = 0,
         raw_data = [0, 0, 128, 63, 0, 0, 0, 64, 0, 0, 64, 64, 0, 0, 128, 64]\<rparr>
             = Inr (Float32Array a)
          \<and> shape a = [1, 4] \<and> length (data a) = 4 \<and> data a ! 0 = 0x3F800000)"
proof -
  let ?d = "\<lparr>height = 1, width = 2, raw_data = [1, 2, 3, 255, 4, 5, 6, 255 :: 8 word]\<rparr>"
  let ?l = "\<lparr>height = 0, width = 0,
         raw_data = [0, 0, 128, 63, 0, 0, 0, 64, 0, 0, 64, 64, 0, 0, 128, 64 :: 8 word]\<rparr>"
  have len: "length (raw_data ?d) = height ?d * width ?d * 4" by simp
  have llen: "length (raw_data ?l) = 4 * (4 * 1)" by simp
  from decode_shapes[of ?d 90 0 32 50] len
  obtain a b where a: "decode (RGBCamera 90) ?d = Inr (UInt8Array a)"
      "shape a = [height ?d, width ?d, 3]" "length (data a) = height ?d * width ?d * 3"
      "\<forall>p < height ?d * width ?d. \<forall>c < 3. data a ! (3 * p + c) = raw_data ?d ! (4 * p + c)"
    and b: "decode (DepthCamera 90) ?d = Inr (UInt8Array b)"
      "shape b = [height ?d, width ?d]" "length (data b) = height ?d * width ?d"
      "\<forall>p < height ?d * width ?d. data b ! p = raw_data ?d ! (4 * p)"
    by blast
  from a(4)[rule_format, of 1 0] have a3: "data a ! 3 = 4" by simp
  from a(4)[rule_format, of 1 2] have a5: "data a ! 5 = 6" by simp
  from b(4)[rule_format, of 1] have b1: "data b ! 1 = 4" by simp
  from decode_shapes[of ?l 90 1 32 50] llen
  obtain c where c: "decode (LidarSensor 32 50) ?l = Inr (Float32Array c)"
      "shape c = [1, 4]" "length (data c) = 4 * 1"
      "\<forall>i < 4 * 1. data c ! i =
          (ucast (raw_data ?l ! (4 * i)) OR push_bit 8 (ucast (raw_data ?l ! (4 * i + 1)))
           OR push_bit 16 (ucast (raw_data ?l ! (4 * i + 2)))
           OR push_bit 24 (ucast (raw_data ?l ! (4 * i + 3))))"
    by blast
  from c(4)[rule_format, of 0] have c0: "data c ! 0 = 0x3F800000" by simp
  from a(1,2,3) a3 a5 have A: "\<exists>a. decode (RGBCamera 90) ?d = Inr (UInt8Array a)
          \<and> shape a = [1, 2, 3] \<and> length (data a) = 6 \<and> data a ! 3 = 4 \<and> data a ! 5 = 6"
    by (intro exI[of _ a]) simp
  from b(1,2,3) b1 have B: "\<exists>a. decode (DepthCamera 90) ?d = Inr (UInt8Array a)
          \<and> shape a = [1, 2] \<and> length (data a) = 2 \<and> data a ! 1 = 4"
    by (intro exI[of _ b]) simp
  from c(1,2,3) c0 have C: "\<exists>a. decode (LidarSensor 32 50) ?l = Inr (Float32Array a)
          \<and> shape a = [1, 4] \<and> length (data a) = 4 \<and> data a ! 0 = 0x3F800000"
    by (intro exI[of _ c]) simp
  from len llen A B C show ?thesis by blast
qed

section \<open>Properties of the sensor bridge\<close>

lemmas bridge_eval =
  spawn_def rgb0_def rgb1_def carla1_def BaseSensor_init_def fresh_carla_def find_blueprint_def
  spawn_actor_def try_spawn_actor_def listen_def thread_start_def set_attribute_def destroy_def
  thread_join_def actor_destroy_def

lemma spawn_rgb0: "spawn rgb0 fresh_carla = Inr (rgb1, carla1)"
  by (simp add: bridge_eval)

lemma upt_0_3: "[0..<3] = [0, 1, 2::nat]"
  by (simp add: numeral_3_eq_3)

lemma decode_image_a: "decode (RGBCamera 90) image_a = Inr frame_a"
  by (simp add: image_a_def frame_a_def reshape_def frombuffer_uint8_def slice_channels_def
      upt_0_3)

lemma decode_image_b: "decode (RGBCamera 90) image_b = Inr frame_b"
  by (simp add: image_b_def frame_b_def reshape_def frombuffer_uint8_def slice_channels_def
      upt_0_3)

lemma cls_rgb1: "cls rgb1 = RGBCamera 90" "queue rgb1 = []" "running rgb1"
  by (simp_all add: rgb1_def rgb0_def BaseSensor_init_def)

text \<open>
  Claim C1 says that a second \<open>destroy()\<close> is a no-op and that the actor is destroyed at
  most once across both calls. What the code does: \<open>destroy()\<close> leaves \<open>self.sensor\<close> as it
  was, so after two calls in succession the bridge still refers to the actor and the
  actor has received two \<open>destroy()\<close> requests (none only when the bridge never held an
  actor). On the camera bridge of the example, spawned and then destroyed twice, actor 0
  is requested to be destroyed twice.
\<close>

theorem destroy_twice_requests_twice:
  "(case destroy s w of (s1, w1) \<Rightarrow>
      case destroy s1 w1 of (s2, w2) \<Rightarrow>
        sensor s1 = sensor s \<and> sensor s2 = sensor s
        \<and> destroy_requests w2 =
            destroy_requests w @ (case sensor s of None \<Rightarrow> [] | Some a \<Rightarrow> [a, a]))
   \<and> spawn rgb0 fresh_carla = Inr (rgb1, carla1)
   \<and> (case destroy rgb1 carla1 of (s1, w1) \<Rightarrow>
        case destroy s1 w1 of (s2, w2) \<Rightarrow>
          sensor s1 = Some 0 \<and> destroy_requests w1 = [0]
          \<and> sensor s2 = Some 0 \<and> destroy_requests w2 = [0, 0])"
  by (simp add: bridge_eval split: option.splits)

text \<open>
  Claim C2 says that \<open>get_data()\<close> returns "no data" on an empty queue, which holds (first
  two conjuncts: a freshly constructed bridge, and any bridge with an empty queue, return
  \<open>None\<close> and are left unchanged), and that on a non-empty queue it returns the most
  recently queued frame. What the code does there: it returns the oldest frame of the
  queue and leaves the later ones. After the deliveries of \<open>image_a\<close> and \<open>image_b\<close> to a
  camera bridge, \<open>get_data()\<close> returns the frame of \<open>image_a\<close>.
\<close>

theorem get_data_returns_oldest:
  "get_data (BaseSensor_init c cfg) = (None, BaseSensor_init c cfg)
   \<and> get_data (s\<lparr>queue := []\<rparr>) = (None, s\<lparr>queue := []\<rparr>)
   \<and> get_data (s\<lparr>queue := f1 # fs @ [f2]\<rparr>) = (Some f1, s\<lparr>queue := fs @ [f2]\<rparr>)
   \<and> run rgb0 [Deliver image_a, Deliver image_b, Poll] = (rgb0\<lparr>queue := [frame_b]\<rparr>, [Some frame_a])
   \<and> frame_a \<noteq> frame_b"
  by (simp add: get_data_def BaseSensor_init_def sensor_callback_def decode_image_a decode_image_b
      rgb0_def frame_a_def frame_b_def del: decode.simps)

text \<open>
  Claim C3, as stated: after \<open>spawn()\<close>, \<open>N\<close> frames injected and \<open>N\<close> calls of
  \<open>get_data()\<close> return the \<open>N\<close> decoded frames in arrival order. After \<open>spawn()\<close> the
  consumer thread is running: when it takes its turn between the delivery and the poll,
  the one frame delivered is dropped and \<open>get_data()\<close> returns \<open>None\<close>.
\<close>

theorem fifo_lost_to_consumer_counterexample:
  "spawn rgb0 fresh_carla = Inr (rgb1, carla1)
   \<and> decode (cls rgb1) image_a = Inr frame_a
   \<and> run rgb1 [Deliver image_a, Consume, Poll] = (rgb1, [None])"
  by (simp add: spawn_rgb0 cls_rgb1 decode_image_a sensor_callback_def process_data_step_def
      get_data_def del: decode.simps)

lemma run_deliver_all:
  "map (decode (cls s)) ds = map Inr fs \<Longrightarrow>
   run s (map Deliver ds @ evs) = run (s\<lparr>queue := queue s @ fs\<rparr>) evs"
proof (induction ds arbitrary: s fs)
  case Nil
  then show ?case by simp
next
  case (Cons d ds)
  then obtain f fs' where fs: "fs = f # fs'" and f: "decode (cls s) d = Inr f"
    and rest: "map (decode (cls s)) ds = map Inr fs'"
    by (cases fs) auto
  from Cons.IH[of "s\<lparr>queue := queue s @ [f]\<rparr>" fs'] rest f fs
  show ?case by (simp add: sensor_callback_def)
qed

lemma run_poll_all:
  "run (s\<lparr>queue := fs @ q\<rparr>) (replicate (length fs) Poll) = (s\<lparr>queue := q\<rparr>, map Some fs)"
  by (induction fs arbitrary: s) (simp_all add: get_data_def)

lemma run_Poll:
  "run s (Poll # evs) =
     (fst (run (snd (get_data s)) evs), fst (get_data s) # snd (run (snd (get_data s)) evs))"
  by (simp split: prod.splits)

lemma run_Consume:
  "run s (Consume # evs) =
     run (if running s then (case queue s of [] \<Rightarrow> s | f # fs \<Rightarrow> s\<lparr>queue := fs\<rparr>) else s) evs"
  by (simp add: process_data_step_def)

lemma run_Deliver:
  "run s (Deliver d # evs) =
     (case decode (cls s) d of
        Inl e \<Rightarrow> run s evs
      | Inr f \<Rightarrow> run (s\<lparr>queue := queue s @ [f]\<rparr>) evs)"
  by (simp add: sensor_callback_def split: sum.splits)

lemma subseq_returned:
  "subseq (returned (snd (run s evs))) (queue s @ decoded (cls s) evs)"
proof (induction evs arbitrary: s)
  case Nil
  then show ?case by simp
next
  case (Cons ev evs)
  show ?case
  proof (cases ev)
    case (Deliver d)
    show ?thesis
    proof (cases "decode (cls s) d")
      case (Inl e)
      with Cons[of s] Deliver show ?thesis by (simp only: run_Deliver decoded.simps sum.case)
    next
      case (Inr f)
      from Cons[of "s\<lparr>queue := queue s @ [f]\<rparr>"] Deliver Inr show ?thesis
        by (simp only: run_Deliver decoded.simps sum.case) simp
    qed
  next
    case Consume
    show ?thesis
    proof (cases "running s \<and> queue s \<noteq> []")
      case True
      then obtain f fs where q: "queue s = f # fs" by (cases "queue s") auto
      from Cons[of "s\<lparr>queue := fs\<rparr>"]
      have "subseq (returned (snd (run (s\<lparr>queue := fs\<rparr>) evs))) (fs @ decoded (cls s) evs)"
        by simp
      then have "subseq (returned (snd (run (s\<lparr>queue := fs\<rparr>) evs)))
                   (f # fs @ decoded (cls s) evs)"
        by (rule list_emb_Cons)
      with True q Consume show ?thesis by (simp only: run_Consume decoded.simps) simp
    next
      case False
      then have "(if running s then (case queue s of [] \<Rightarrow> s | f # fs \<Rightarrow> s\<lparr>queue := fs\<rparr>) else s) = s"
        by (auto split: list.splits)
      with Cons[of s] Consume show ?thesis by (simp only: run_Consume decoded.simps)
    qed
  next
    case Poll
    show ?thesis
    proof (cases "queue s")
      case Nil
      then have g: "get_data s = (None, s)" by (simp add: get_data_def)
      from Cons[of s] Poll show ?thesis
        by (simp only: run_Poll g decoded.simps fst_conv snd_conv returned.simps)
    next
      case (Cons f fs)
      then have g: "get_data s = (Some f, s\<lparr>queue := fs\<rparr>)" by (simp add: get_data_def)
      from Cons.IH[of "s\<lparr>queue := fs\<rparr>"]
      have "subseq (returned (snd (run (s\<lparr>queue := fs\<rparr>) evs))) (fs @ decoded (cls s) evs)"
        by simp
      then have "subseq (f # returned (snd (run (s\<lparr>queue := fs\<rparr>) evs)))
                   (f # fs @ decoded (cls s) evs)"
        by (rule subseq_Cons2)
      with Cons Poll show ?thesis
        by (simp only: run_Poll g decoded.simps fst_conv snd_conv returned.simps) simp
    qed
  qed
qed

text \<open>
  Claim C3, amended. After \<open>spawn()\<close>, \<open>N\<close> raw frames that all decode, injected through
  the callback and followed by \<open>N\<close> calls of \<open>get_data()\<close>, are returned decoded and in
  arrival order, provided the consumer thread takes no turn in between. Under any
  schedule of deliveries, consumer turns and polls, the frames that \<open>get_data()\<close> returns
  are a subsequence, in arrival order, of the frames that were decoded and queued.
\<close>

theorem fifo_without_consumer:
  "(spawn (BaseSensor_init c cfg) w = Inr (s, w') \<and> map (decode c) ds = map Inr fs \<longrightarrow>
      run s (map Deliver ds @ replicate (length ds) Poll) = (s, map Some fs))
   \<and> (spawn (BaseSensor_init c cfg) w = Inr (s, w') \<longrightarrow>
      subseq (returned (snd (run s evs))) (decoded c evs))"
proof -
  have fresh: "queue s = [] \<and> cls s = c" if "spawn (BaseSensor_init c cfg) w = Inr (s, w')"
    using that
    by (auto simp: spawn_def BaseSensor_init_def thread_start_def Let_def
        split: if_splits option.splits sum.splits prod.splits)
  have 1: "run s (map Deliver ds @ replicate (length ds) Poll) = (s, map Some fs)"
    if sp: "spawn (BaseSensor_init c cfg) w = Inr (s, w')"
      and dec: "map (decode c) ds = map Inr fs"
  proof -
    from fresh[OF sp] have q: "queue s = []" and c: "cls s = c" by simp_all
    from dec have len: "length ds = length fs" by (metis length_map)
    from run_deliver_all[of s ds fs "replicate (length ds) Poll"] dec c q
    have "run s (map Deliver ds @ replicate (length ds) Poll)
            = run (s\<lparr>queue := fs @ []\<rparr>) (replicate (length fs) Poll)"
      using len by simp
    also have "\<dots> = (s\<lparr>queue := []\<rparr>, map Some fs)" by (rule run_poll_all)
    finally show ?thesis using q by simp
  qed
  have 2: "subseq (returned (snd (run s evs))) (decoded c evs)"
    if sp: "spawn (BaseSensor_init c cfg) w = Inr (s, w')"
    using subseq_returned[of s evs] fresh[OF sp] by simp
  from 1 2 show ?thesis by blast
qed

theorem fifo_without_consumer_witness:
  "spawn (BaseSensor_init (RGBCamera 90)
            \<lparr>cfg_location = (0, 0, 2), cfg_rotation = (0, 0, 0), attachment = None\<rparr>)
       fresh_carla = Inr (rgb1, carla1)
   \<and> map (decode (RGBCamera 90)) [image_a, image_b] = map Inr [frame_a, frame_b]
   \<and> run rgb1 (map Deliver [image_a, image_b] @ replicate (length [image_a, image_b]) Poll)
       = (rgb1, map Some [frame_a, frame_b])
   \<and> subseq (returned (snd (run rgb1 [Deliver image_a, Consume, Deliver image_b, Poll])))
        (decoded (RGBCamera 90) [Deliver image_a, Consume, Deliver image_b, Poll])"
proof -
  let ?cfg = "\<lparr>cfg_location = (0, 0, 2), cfg_rotation = (0, 0, 0), attachment = None\<rparr>"
  have sp: "spawn (BaseSensor_init (RGBCamera 90) ?cfg) fresh_carla = Inr (rgb1, carla1)"
    using spawn_rgb0 by (simp add: rgb0_def)
  have dec: "map (decode (RGBCamera 90)) [image_a, image_b] = map Inr [frame_a, frame_b]"
    by (simp add: decode_image_a decode_image_b del: decode.simps)
  from fifo_without_consumer
         [of "RGBCamera 90" ?cfg fresh_carla rgb1 carla1 "[image_a, image_b]"
             "[frame_a, frame_b]" "[Deliver image_a, Consume, Deliver image_b, Poll]"]
       sp dec
  show ?thesis by blast
qed

text \<open>
  Claim C4, as stated: a second \<open>spawn()\<close> on a bridge whose first \<open>spawn()\<close> completed
  signals an invalid-state error. On the camera bridge of the example the second call
  returns normally: it creates actor 1, stores it in place of actor 0, which stays alive,
  and starts a second consumer thread.
\<close>

theorem spawn_twice_counterexample:
  "spawn rgb0 fresh_carla = Inr (rgb1, carla1)
   \<and> spawn rgb1 carla1 =
       Inr (rgb1\<lparr>sensor := Some 1, thread := Some 1\<rparr>,
            carla1\<lparr>actors := actors carla1 @
                [(1, \<lparr>bp_id = ''sensor.camera.rgb'', attributes = [(''fov'', TextOfFloat 90)]\<rparr>,
                  \<lparr>location = (0, 0, 2), rotation = (0, 0, 0)\<rparr>, None)],
              next_actor := 2, listening := [0, 1], consumers := [0, 1], next_thread := 2\<rparr>)"
  by (simp add: bridge_eval)

text \<open>
  Claim C4, amended. \<open>spawn()\<close> has no test of the bridge's state, so a second call does
  not signal an invalid-state error: it raises exactly when \<open>spawn()\<close> on a freshly
  constructed bridge of the same class and configuration would raise, with the same
  exception (the class has no \<open>spawn\<close>, the blueprint is missing, the simulator cannot create
  the actor). Otherwise it creates a further actor and stores it in \<open>self.sensor\<close>, every
  actor alive before stays alive, the flag is set, a further consumer thread is started
  and stored in \<open>self.thread\<close>, the queue is kept and nothing is destroyed.
\<close>

theorem spawn_ignores_state:
  "(spawn s w = Inl e \<longleftrightarrow> spawn (BaseSensor_init (cls s) (config s)) w = Inl e)
   \<and> (spawn s w = Inr (s', w') \<longrightarrow>
        sensor s' = Some (next_actor w) \<and> running s' \<and> thread s' = Some (next_thread w)
        \<and> queue s' = queue s
        \<and> actors w' = actors w @ [last (actors w')] \<and> fst (last (actors w')) = next_actor w
        \<and> consumers w' = consumers w @ [next_thread w]
        \<and> destroy_requests w' = destroy_requests w)"
  by (auto simp: spawn_def BaseSensor_init_def spawn_actor_def try_spawn_actor_def listen_def
      thread_start_def Let_def split: if_splits option.splits sum.splits prod.splits)

theorem spawn_ignores_state_witness:
  "spawn rgb1 carla1 =
       Inr (rgb1\<lparr>sensor := Some 1, thread := Some 1\<rparr>,
            carla1\<lparr>actors := actors carla1 @
                [(1, \<lparr>bp_id = ''sensor.camera.rgb'', attributes = [(''fov'', TextOfFloat 90)]\<rparr>,
                  \<lparr>location = (0, 0, 2), rotation = (0, 0, 0)\<rparr>, None)],
              next_actor := 2, listening := [0, 1], consumers := [0, 1], next_thread := 2\<rparr>)
   \<and> sensor (rgb1\<lparr>sensor := Some 1, thread := Some 1\<rparr>) = Some (next_actor carla1)
   \<and> running (rgb1\<lparr>sensor := Some 1, thread := Some 1\<rparr>)
   \<and> sensor rgb1 = Some 0 \<and> running rgb1"
proof -
  let ?s = "rgb1\<lparr>sensor := Some 1, thread := Some 1\<rparr>"
  let ?w = "carla1\<lparr>actors := actors carla1 @
                [(1, \<lparr>bp_id = ''sensor.camera.rgb'', attributes = [(''fov'', TextOfFloat 90)]\<rparr>,
                  \<lparr>location = (0, 0, 2), rotation = (0, 0, 0)\<rparr>, None)],
              next_actor := 2, listening := [0, 1], consumers := [0, 1], next_thread := 2\<rparr>"
  have sp: "spawn rgb1 carla1 = Inr (?s, ?w)" by (simp add: bridge_eval)
  from spawn_ignores_state[of rgb1 carla1 NotImplementedError ?s ?w] sp
  have "sensor ?s = Some (next_actor carla1) \<and> running ?s" by blast
  moreover have "sensor rgb1 = Some 0 \<and> running rgb1" by (simp add: rgb1_def)
  ultimately show ?thesis using sp by blast
qed

section \<open>Properties of the simulator facade\<close>

lemma sublist_collision:
  "sublist ''collision''
     (''Failed to spawn vehicle: '' @
      ''Failed to spawn vehicle: Spawn failed because of collision at spawn position'')"
proof -
  have "''Failed to spawn vehicle: '' @
      ''Failed to spawn vehicle: Spawn failed because of collision at spawn position''
     = ''Failed to spawn vehicle: Failed to spawn vehicle: Spawn failed because of ''
       @ ''collision'' @ '' at spawn position''"
    by simp
  then show ?thesis unfolding sublist_def by blast
qed

text \<open>
  Rounding evaluated: the floor and ceiling of a quotient of numerals, the double nearest
  to \<open>0.2\<close>, and the lift of \<open>0.5\<close> and of \<open>16777216\<close> (\<open>2\<close> to the \<open>24\<close>).
\<close>

lemma floor_rat_numeral:
  "\<lfloor>numeral a / numeral b :: rat\<rfloor> = numeral a div numeral b"
  by (metis floor_divide_of_int_eq of_int_numeral)

lemma floor_rat_minus_numeral:
  "\<lfloor>- (numeral a / numeral b) :: rat\<rfloor> = - numeral a div numeral b"
  by (metis divide_minus_left floor_divide_of_int_eq of_int_neg_numeral of_int_numeral)

lemma ceiling_rat_numeral:
  "\<lceil>numeral a / numeral b :: rat\<rceil> = - (- numeral a div numeral b)"
  by (simp add: ceiling_def floor_rat_minus_numeral)

lemmas float_eval = float32_def float64_def round_to_def exponent_of_def pow2_def
  round_half_even_def Let_def bit_length.simps floor_rat_numeral floor_rat_minus_numeral
  ceiling_rat_numeral

lemma float64_fifth: "float64 (1 / 5) = 3602879701896397 / 18014398509481984"
  by (simp add: float_eval)

lemma float64_half_plus: "float64 (1 / 2 + 3602879701896397 / 18014398509481984)
             = 3152519739159347 / 4503599627370496"
  by (simp add: float_eval)

lemma float32_half_plus: "float32 (3152519739159347 / 4503599627370496) = 11744051 / 16777216"
  by (simp add: float_eval)

lemma lift_half: "float32 (float64 (1 / 2 + float64 (1 / 5))) = 11744051 / 16777216"
  by (simp only: float64_fifth float64_half_plus float32_half_plus)

lemma float64_big_plus: "float64 (16777216 + 3602879701896397 / 18014398509481984)
             = 4503599681057587 / 268435456"
  by (simp add: float_eval)

lemma float32_big_plus: "float32 (4503599681057587 / 268435456) = 16777216"
  by (simp add: float_eval)

lemma lift_big: "float32 (float64 (16777216 + float64 (1 / 5))) = 16777216"
  by (simp only: float64_fifth float64_big_plus float32_big_plus)

lemma stored_pose:
  "float32 (float64 10) = 10" "float32 (float64 20) = 20" "float32 (float64 90) = 90"
  "float32 (float64 0) = 0" "float32 (float64 (1 / 2)) = 1 / 2"
  by (simp_all add: float_eval)

lemma to_transform_pose:
  "to_transform pose = Inr \<lparr>location = (10, 20, 1 / 2), rotation = (0, 90, 0)\<rparr>"
  by (simp add: pose_def dict_get_def stored_pose)

lemma spawn_vehicle_pose:
  "spawn_vehicle connected fresh_carla ''vehicle.tesla.model3'' pose ''hero'' =
     Inr (0, connected\<lparr>vehicle := Some 0\<rparr>,
          fresh_carla\<lparr>actors :=
              [(0, \<lparr>bp_id = ''vehicle.tesla.model3'', attributes = [(''role_name'', Text ''hero'')]\<rparr>,
                \<lparr>location = (10, 20, 11744051 / 16777216), rotation = (0, 90, 0)\<rparr>, None)],
            next_actor := 1\<rparr>)"
  by (simp add: spawn_vehicle_def to_transform_pose lift_spawn_point_def lift_half
      connected_def CarlaSimulator_init_def fresh_carla_def find_blueprint_def
      set_attribute_def try_spawn_actor_def del: to_transform.simps)

text \<open>
  Claim C6, as stated: the spawn point is exactly \<open>0.2\<close> above the requested \<open>z\<close>. It is
  not. For the request \<open>{x: 10, y: 20, z: 0.5, yaw: 90}\<close> the vehicle is registered at
  \<open>z = 11744051 / 16777216\<close> (\<open>0.699999988...\<close>), the 32-bit float nearest to the sum, which
  is not \<open>0.5 + 0.2\<close>; and a transform at \<open>z = 16777216\<close> is not lifted at all, the
  32-bit floats around it being \<open>2\<close> apart.
\<close>

theorem spawn_vehicle_lift_not_exact_counterexample:
  "spawn_vehicle connected fresh_carla ''vehicle.tesla.model3'' pose ''hero'' =
     Inr (0, connected\<lparr>vehicle := Some 0\<rparr>,
          fresh_carla\<lparr>actors :=
              [(0, \<lparr>bp_id = ''vehicle.tesla.model3'', attributes = [(''role_name'', Text ''hero'')]\<rparr>,
                \<lparr>location = (10, 20, 11744051 / 16777216), rotation = (0, 90, 0)\<rparr>, None)],
            next_actor := 1\<rparr>)
   \<and> pose = AsDict [(''x'', 10), (''y'', 20), (''z'', 1 / 2), (''yaw'', 90)]
   \<and> (11744051 / 16777216 :: rat) \<noteq> 1 / 2 + 2 / 10
   \<and> location (lift_spawn_point \<lparr>location = (0, 0, 16777216), rotation = (0, 0, 0)\<rparr>)
       = (0, 0, 16777216)"
proof (intro conjI)
  show "pose = AsDict [(''x'', 10), (''y'', 20), (''z'', 1 / 2), (''yaw'', 90)]"
    by (simp add: pose_def)
  show "(11744051 / 16777216 :: rat) \<noteq> 1 / 2 + 2 / 10"
    by simp
  show "location (lift_spawn_point \<lparr>location = (0, 0, 16777216), rotation = (0, 0, 0)\<rparr>)
       = (0, 0, 16777216)"
    by (simp add: lift_spawn_point_def lift_big)
qed (rule spawn_vehicle_pose)

text \<open>
  Claim C6, amended. \<open>spawn_vehicle\<close> asks the simulator for a spawn at the requested \<open>x\<close>,
  \<open>y\<close> and rotation, as the 32-bit floats a \<open>carla.Transform\<close> holds, and at the 32-bit
  float nearest to the sum, in double precision, of the requested \<open>z\<close> and the double
  nearest to \<open>0.2\<close>: \<open>0.2\<close> above the requested \<open>z\<close> up to that rounding, not exactly. A
  vehicle it returns is registered in the simulator with that transform, the blueprint
  of the model and the role name, and is stored as the vehicle of the facade. This holds
  for a \<open>carla.Transform\<close>, whose coordinates are 32-bit floats, and for a dict, whose
  numbers (\<open>0\<close> for a missing key) are first rounded to doubles by \<open>float\<close> and then to
  32-bit floats. When the world is connected and the model is known but that position is
  occupied, \<open>spawn_vehicle\<close> raises a \<open>RuntimeError\<close> whose message contains the word
  "collision".
\<close>

theorem spawn_vehicle_pose_and_collision:
  "(spawn_vehicle s w model (AsTransform t) role = Inr (v, s', w') \<and> location t = (x, y, z)
        \<and> is_float32 x \<and> is_float32 y \<and> is_float32 z \<longrightarrow>
      actors w' = actors w @
        [(v, \<lparr>bp_id = model, attributes = [(''role_name'', Text role)]\<rparr>,
          \<lparr>location = (x, y, float32 (float64 (z + float64 (2 / 10)))), rotation = rotation t\<rparr>,
          None)]
      \<and> vehicle s' = Some v)
   \<and> (spawn_vehicle s w model (AsDict d) role = Inr (v, s', w') \<and> within_float32 d \<longrightarrow>
      actors w' = actors w @
        [(v, \<lparr>bp_id = model, attributes = [(''role_name'', Text role)]\<rparr>,
          \<lparr>location = (float32 (float64 (dict_get d ''x'' 0)),
                       float32 (float64 (dict_get d ''y'' 0)),
                       float32 (float64 (float32 (float64 (dict_get d ''z'' 0)) + float64 (2 / 10)))),
            rotation = (float32 (float64 (dict_get d ''pitch'' 0)),
                        float32 (float64 (dict_get d ''yaw'' 0)),
                        float32 (float64 (dict_get d ''roll'' 0)))\<rparr>,
          None)]
      \<and> vehicle s' = Some v)
   \<and> (world s \<noteq> None \<and> find_blueprint w model \<noteq> None \<and> location t = (x, y, z)
        \<and> is_float32 x \<and> is_float32 y \<and> is_float32 z
        \<and> (x, y, float32 (float64 (z + float64 (2 / 10)))) \<in> set (occupied w) \<longrightarrow>
      (\<exists>msg. spawn_vehicle s w model (AsTransform t) role = Inl (RuntimeError msg)
         \<and> sublist ''collision'' msg))
   \<and> (world s \<noteq> None \<and> find_blueprint w model \<noteq> None \<and> within_float32 d
        \<and> (float32 (float64 (dict_get d ''x'' 0)), float32 (float64 (dict_get d ''y'' 0)),
            float32 (float64 (float32 (float64 (dict_get d ''z'' 0)) + float64 (2 / 10))))
           \<in> set (occupied w) \<longrightarrow>
      (\<exists>msg. spawn_vehicle s w model (AsDict d) role = Inl (RuntimeError msg)
         \<and> sublist ''collision'' msg))"
proof -
  have 1: "actors w' = actors w @
        [(v, \<lparr>bp_id = model, attributes = [(''role_name'', Text role)]\<rparr>,
          \<lparr>location = (x, y, float32 (float64 (z + float64 (2 / 10)))), rotation = rotation t\<rparr>,
          None)]
      \<and> vehicle s' = Some v"
    if "spawn_vehicle s w model (AsTransform t) role = Inr (v, s', w')" "location t = (x, y, z)"
    using that
    by (auto simp: spawn_vehicle_def try_spawn_actor_def lift_spawn_point_def find_blueprint_def
        set_attribute_def split: if_splits)
  have 2: "actors w' = actors w @
        [(v, \<lparr>bp_id = model, attributes = [(''role_name'', Text role)]\<rparr>,
          \<lparr>location = (float32 (float64 (dict_get d ''x'' 0)),
                       float32 (float64 (dict_get d ''y'' 0)),
                       float32 (float64 (float32 (float64 (dict_get d ''z'' 0)) + float64 (2 / 10)))),
            rotation = (float32 (float64 (dict_get d ''pitch'' 0)),
                        float32 (float64 (dict_get d ''yaw'' 0)),
                        float32 (float64 (dict_get d ''roll'' 0)))\<rparr>,
          None)]
      \<and> vehicle s' = Some v"
    if "spawn_vehicle s w model (AsDict d) role = Inr (v, s', w')"
    using that
    by (auto simp: spawn_vehicle_def try_spawn_actor_def lift_spawn_point_def find_blueprint_def
        set_attribute_def split: if_splits)
  have 3: "\<exists>msg. spawn_vehicle s w model (AsTransform t) role = Inl (RuntimeError msg)
         \<and> sublist ''collision'' msg"
    if "world s \<noteq> None" "find_blueprint w model \<noteq> None" "location t = (x, y, z)"
       "(x, y, float32 (float64 (z + float64 (2 / 10)))) \<in> set (occupied w)"
  proof -
    from that have "spawn_vehicle s w model (AsTransform t) role =
      Inl (RuntimeError (''Failed to spawn vehicle: '' @
        ''Failed to spawn vehicle: Spawn failed because of collision at spawn position''))"
      by (auto simp: spawn_vehicle_def try_spawn_actor_def lift_spawn_point_def)
    with sublist_collision show ?thesis by blast
  qed
  have 4: "\<exists>msg. spawn_vehicle s w model (AsDict d) role = Inl (RuntimeError msg)
         \<and> sublist ''collision'' msg"
    if "world s \<noteq> None" "find_blueprint w model \<noteq> None"
       "(float32 (float64 (dict_get d ''x'' 0)), float32 (float64 (dict_get d ''y'' 0)),
            float32 (float64 (float32 (float64 (dict_get d ''z'' 0)) + float64 (2 / 10))))
           \<in> set (occupied w)"
  proof -
    from that have "spawn_vehicle s w model (AsDict d) role =
      Inl (RuntimeError (''Failed to spawn vehicle: '' @
        ''Failed to spawn vehicle: Spawn failed because of collision at spawn position''))"
      by (auto simp: spawn_vehicle_def try_spawn_actor_def lift_spawn_point_def)
    with sublist_collision show ?thesis by blast
  qed
  show ?thesis
    apply (intro conjI impI)
    subgoal using 1 by blast
    subgoal using 1 by blast
    subgoal using 2 by blast
    subgoal using 2 by blast
    subgoal using 3 by blast
    subgoal using 4 by blast
    done
qed

lemma spawn_vehicle_transform:
  "spawn_vehicle connected fresh_carla ''vehicle.tesla.model3''
       (AsTransform \<lparr>location = (10, 20, 1 / 2), rotation = (0, 90, 0)\<rparr>) ''hero'' =
     Inr (0, connected\<lparr>vehicle := Some 0\<rparr>,
          fresh_carla\<lparr>actors :=
              [(0, \<lparr>bp_id = ''vehicle.tesla.model3'', attributes = [(''role_name'', Text ''hero'')]\<rparr>,
                \<lparr>location = (10, 20, 11744051 / 16777216), rotation = (0, 90, 0)\<rparr>, None)],
            next_actor := 1\<rparr>)"
  by (simp add: spawn_vehicle_def lift_spawn_point_def lift_half
      connected_def CarlaSimulator_init_def fresh_carla_def find_blueprint_def
      set_attribute_def try_spawn_actor_def)

theorem spawn_vehicle_pose_and_collision_witness:
  "spawn_vehicle connected fresh_carla ''vehicle.tesla.model3''
       (AsTransform \<lparr>location = (10, 20, 1 / 2), rotation = (0, 90, 0)\<rparr>) ''hero'' =
     Inr (0, connected\<lparr>vehicle := Some 0\<rparr>,
          fresh_carla\<lparr>actors :=
              [(0, \<lparr>bp_id = ''vehicle.tesla.model3'', attributes = [(''role_name'', Text ''hero'')]\<rparr>,
                \<lparr>location = (10, 20, 11744051 / 16777216), rotation = (0, 90, 0)\<rparr>, None)],
            next_actor := 1\<rparr>)
   \<and> spawn_vehicle connected fresh_carla ''vehicle.tesla.model3''
       (AsDict [(''x'', 10), (''y'', 20), (''z'', 1 / 2), (''yaw'', 90)]) ''hero'' =
     Inr (0, connected\<lparr>vehicle := Some 0\<rparr>,
          fresh_carla\<lparr>actors :=
              [(0, \<lparr>bp_id = ''vehicle.tesla.model3'', attributes = [(''role_name'', Text ''hero'')]\<rparr>,
                \<lparr>location = (10, 20, 11744051 / 16777216), rotation = (0, 90, 0)\<rparr>, None)],
            next_actor := 1\<rparr>)
   \<and> is_float32 10 \<and> is_float32 20 \<and> is_float32 (1 / 2)
   \<and> within_float32 [(''x'', 10), (''y'', 20), (''z'', 1 / 2), (''yaw'', 90)]
   \<and> float32 (float64 (1 / 2 + float64 (2 / 10))) = 11744051 / 16777216
   \<and> vehicle (connected\<lparr>vehicle := Some 0\<rparr>) = Some 0
   \<and> world connected \<noteq> None
   \<and> find_blueprint (fresh_carla\<lparr>occupied := [(10, 20, 11744051 / 16777216)]\<rparr>)
         ''vehicle.tesla.model3'' \<noteq> None
   \<and> (10, 20, float32 (float64 (1 / 2 + float64 (2 / 10))))
         \<in> set (occupied (fresh_carla\<lparr>occupied := [(10, 20, 11744051 / 16777216)]\<rparr>))
   \<and> (\<exists>msg. spawn_vehicle connected (fresh_carla\<lparr>occupied := [(10, 20, 11744051 / 16777216)]\<rparr>)
                ''vehicle.tesla.model3''
                (AsTransform \<lparr>location = (10, 20, 1 / 2), rotation = (0, 90, 0)\<rparr>) ''hero''
              = Inl (RuntimeError msg)
          \<and> sublist ''collision'' msg)
   \<and> (\<exists>msg. spawn_vehicle connected (fresh_carla\<lparr>occupied := [(10, 20, 11744051 / 16777216)]\<rparr>)
                ''vehicle.tesla.model3''
                (AsDict [(''x'', 10), (''y'', 20), (''z'', 1 / 2), (''yaw'', 90)]) ''hero''
              = Inl (RuntimeError msg)
          \<and> sublist ''collision'' msg)"
proof -
  let ?w = "fresh_carla\<lparr>occupied := [(10, 20, 11744051 / 16777216)]\<rparr>"
  let ?t = "\<lparr>location = (10, 20, 1 / 2), rotation = (0, 90, 0)\<rparr> :: Transform"
  let ?d = "[(''x'', 10), (''y'', 20), (''z'', 1 / 2), (''yaw'', 90)] :: (string \<times> rat) list"
  let ?s' = "connected\<lparr>vehicle := Some 0\<rparr>"
  let ?w' = "fresh_carla\<lparr>actors :=
              [(0, \<lparr>bp_id = ''vehicle.tesla.model3'', attributes = [(''role_name'', Text ''hero'')]\<rparr>,
                \<lparr>location = (10, 20, 11744051 / 16777216), rotation = (0, 90, 0)\<rparr>, None)],
            next_actor := 1\<rparr>"
  have ok: "spawn_vehicle connected fresh_carla ''vehicle.tesla.model3'' (AsTransform ?t) ''hero''
              = Inr (0, ?s', ?w')"
    by (rule spawn_vehicle_transform)
  have okd: "spawn_vehicle connected fresh_carla ''vehicle.tesla.model3'' (AsDict ?d) ''hero''
              = Inr (0, ?s', ?w')"
    using spawn_vehicle_pose by (simp only: pose_def)
  have loc: "location ?t = (10, 20, 1 / 2)" by simp
  have f: "is_float32 10" "is_float32 20" "is_float32 (1 / 2)"
    by (simp_all add: is_float32_def max_float32_def float_eval)
  have r: "within_float32 ?d"
    by (simp add: within_float32_def dict_get_def max_float32_def)
  have lift: "float32 (float64 (1 / 2 + float64 (2 / 10))) = 11744051 / 16777216"
    using lift_half by simp
  have 1: "world connected \<noteq> None" by (simp add: connected_def)
  have 2: "find_blueprint ?w ''vehicle.tesla.model3'' \<noteq> None"
    by (simp add: find_blueprint_def fresh_carla_def)
  have 3: "(10, 20, float32 (float64 (1 / 2 + float64 (2 / 10)))) \<in> set (occupied ?w)"
    using lift by simp
  have 4: "(float32 (float64 (dict_get ?d ''x'' 0)), float32 (float64 (dict_get ?d ''y'' 0)),
            float32 (float64 (float32 (float64 (dict_get ?d ''z'' 0)) + float64 (2 / 10))))
           \<in> set (occupied ?w)"
    using lift by (simp add: dict_get_def stored_pose)
  note thm1 = spawn_vehicle_pose_and_collision
      [where s = connected and w = fresh_carla and model = "''vehicle.tesla.model3''"
         and t = ?t and role = "''hero''" and v = 0 and s' = ?s' and w' = ?w'
         and x = 10 and y = 20 and z = "1 / 2" and d = ?d]
  note thm2 = spawn_vehicle_pose_and_collision
      [where s = connected and w = ?w and model = "''vehicle.tesla.model3''"
         and t = ?t and role = "''hero''" and v = 0 and s' = ?s' and w' = ?w'
         and x = 10 and y = 20 and z = "1 / 2" and d = ?d]
  from thm1 ok loc f have v: "vehicle ?s' = Some 0" by blast
  from thm1 okd r have vd: "vehicle ?s' = Some 0" by blast
  from thm2 1 2 3 loc f
  have c1: "\<exists>msg. spawn_vehicle connected ?w ''vehicle.tesla.model3'' (AsTransform ?t) ''hero''
              = Inl (RuntimeError msg) \<and> sublist ''collision'' msg"
    by blast
  from thm2 1 2 4 r
  have c2: "\<exists>msg. spawn_vehicle connected ?w ''vehicle.tesla.model3'' (AsDict ?d) ''hero''
              = Inl (RuntimeError msg) \<and> sublist ''collision'' msg"
    by blast
  from ok okd f r lift v 1 2 3 c1 c2 show ?thesis by blast
qed

text \<open>
  Claim C7. \<open>disconnect()\<close> on a facade with no registered sensor and no vehicle returns
  normally, makes no request to the simulator, and leaves every field empty: no client,
  no world, no vehicle, no sensors, no sensor data.
\<close>

theorem disconnect_nothing_spawned:
  "sensors s = [] \<and> vehicle s = None \<longrightarrow>
     disconnect s w =
       (\<lparr>client = None, world = None, vehicle = None, sensors = [], sensor_data = []\<rparr>, w)"
  by (simp add: disconnect_def)

theorem disconnect_nothing_spawned_witness:
  "sensors connected = [] \<and> vehicle connected = None
   \<and> client connected = Some (''localhost'', 2000)
   \<and> disconnect connected fresh_carla =
       (\<lparr>client = None, world = None, vehicle = None, sensors = [], sensor_data = []\<rparr>,
        fresh_carla)
   \<and> disconnect CarlaSimulator_init fresh_carla =
       (\<lparr>client = None, world = None, vehicle = None, sensors = [], sensor_data = []\<rparr>,
        fresh_carla)"
proof -
  have 1: "sensors connected = [] \<and> vehicle connected = None"
    by (simp add: connected_def CarlaSimulator_init_def)
  have 2: "sensors CarlaSimulator_init = [] \<and> vehicle CarlaSimulator_init = None"
    by (simp add: CarlaSimulator_init_def)
  have 3: "client connected = Some (''localhost'', 2000)"
    by (simp add: connected_def)
  from disconnect_nothing_spawned[of connected fresh_carla]
       disconnect_nothing_spawned[of CarlaSimulator_init fresh_carla] 1 2 3
  show ?thesis by blast
qed

section \<open>Properties of the renderer\<close>

lemma replicate_5: "replicate 5 x = [x, x, x, x, x]"
  by (simp add: numeral_eq_Suc)

lemma format_06d_0: "format_06d 0 = ''000000''"
  by (simp add: format_06d_def decimal.simps[of 0] digit_def replicate_5)

lemma auto_filename_0: "frame_count r = 0 \<Longrightarrow> auto_filename r = ''frame_000000.jpg''"
  by (simp add: auto_filename_def format_06d_0)

lemma call_keeps_idle:
  assumes "frame_count r = 0" "video_writer r = None" "\<not> save_video r \<or> \<not> is_setup c"
  shows "frame_count (fst (call dr c (r, files))) = 0
       \<and> video_writer (fst (call dr c (r, files))) = None
       \<and> save_video (fst (call dr c (r, files))) = save_video r
       \<and> output_dir (fst (call dr c (r, files))) = output_dir r"
  using assms
  by (cases c) (auto simp: setup_video_writer_def render_frame_def cleanup_def Let_def
      split: option.splits)

lemma calls_keep_idle:
  "frame_count r = 0 \<Longrightarrow> video_writer r = None \<Longrightarrow>
   \<not> save_video r \<or> \<not> (\<exists>c \<in> set cs. is_setup c) \<Longrightarrow>
   frame_count (fst (calls dr cs (r, files))) = 0
   \<and> output_dir (fst (calls dr cs (r, files))) = output_dir r"
proof (induction cs arbitrary: r files)
  case Nil
  then show ?case by (simp add: calls_def)
next
  case (Cons c cs)
  obtain r' files' where st: "call dr c (r, files) = (r', files')"
    by (cases "call dr c (r, files)")
  from Cons.prems have "\<not> save_video r \<or> \<not> is_setup c" by auto
  from call_keeps_idle[OF Cons.prems(1,2) this, of dr files] st
  have r': "frame_count r' = 0" "video_writer r' = None" "save_video r' = save_video r"
    "output_dir r' = output_dir r" by simp_all
  from Cons.prems(3) r'(3) have "\<not> save_video r' \<or> \<not> (\<exists>c \<in> set cs. is_setup c)" by auto
  from Cons.IH[OF r'(1,2) this, of files'] st r'(4)
  show ?case by (simp add: calls_def)
qed

text \<open>
  Claim C10. The frame counter changes only in \<open>render_frame\<close>, and there only when
  video saving is enabled and a writer is set up, by one per frame written; no other
  method changes it. So a renderer constructed with video saving disabled, or one on
  which \<open>setup_video_writer\<close> is never called, keeps the count \<open>0\<close> through any sequence of
  calls, every \<open>save_frame\<close> without a file name chooses \<open>frame_000000.jpg\<close>, and a later
  such still replaces an earlier one at the same path.
\<close>

theorem frame_count_only_when_writing:
  "frame_count (snd (render_frame dr r img out info))
     = frame_count r + (if save_video r \<and> video_writer r \<noteq> None then 1 else 0)
   \<and> frame_count (setup_video_writer r w h name) = frame_count r
   \<and> frame_count (cleanup r) = frame_count r
   \<and> fst (call dr (SaveFrame img name') (r, files)) = r
   \<and> (\<not> sv \<or> \<not> (\<exists>c \<in> set cs. is_setup c) \<longrightarrow>
        frame_count (fst (calls dr cs (Renderer_init dir sv rate, files))) = 0
        \<and> auto_filename (fst (calls dr cs (Renderer_init dir sv rate, files)))
            = ''frame_000000.jpg'')
   \<and> (frame_count r = 0 \<longrightarrow>
        save_frame r (save_frame r files f1 None) f2 None
          = files(path_join (output_dir r) ''frame_000000.jpg'' \<mapsto> f2))"
proof -
  have 1: "frame_count (snd (render_frame dr r img out info))
     = frame_count r + (if save_video r \<and> video_writer r \<noteq> None then 1 else 0)"
    by (simp add: render_frame_def Let_def split: option.splits)
  have 2: "frame_count (setup_video_writer r w h name) = frame_count r"
    by (simp add: setup_video_writer_def)
  have 3: "frame_count (cleanup r) = frame_count r"
    by (simp add: cleanup_def)
  have 4: "fst (call dr (SaveFrame img name') (r, files)) = r" by simp
  have 5: "frame_count (fst (calls dr cs (Renderer_init dir sv rate, files))) = 0
        \<and> auto_filename (fst (calls dr cs (Renderer_init dir sv rate, files)))
            = ''frame_000000.jpg''"
    if "\<not> sv \<or> \<not> (\<exists>c \<in> set cs. is_setup c)"
  proof -
    have "frame_count (fst (calls dr cs (Renderer_init dir sv rate, files))) = 0"
      using calls_keep_idle[of "Renderer_init dir sv rate" cs dr files] that
      by (simp add: Renderer_init_def)
    then show ?thesis by (simp add: auto_filename_0)
  qed
  have 6: "save_frame r (save_frame r files f1 None) f2 None
          = files(path_join (output_dir r) ''frame_000000.jpg'' \<mapsto> f2)"
    if "frame_count r = 0"
    using that by (simp add: save_frame_def auto_filename_0)
  from 1 2 3 4 5 6 show ?thesis by blast
qed

lemma session_disabled:
  "calls plain_drawing session (Renderer_init ''results'' False 30, Map.empty) =
     (Renderer_init ''results'' False 30,
      [''results/frame_000000.jpg'' \<mapsto> 2])"
  by (simp add: calls_def session_def Renderer_init_def setup_video_writer_def render_frame_def
      plain_drawing_def save_frame_def auto_filename_def format_06d_0 path_join_def)

lemma session_enabled:
  "frame_count (fst (calls plain_drawing session (Renderer_init ''results'' True 30, Map.empty)))
     = 2"
  by (simp add: calls_def session_def Renderer_init_def setup_video_writer_def render_frame_def
      plain_drawing_def save_frame_def path_join_def)

theorem frame_count_only_when_writing_witness:
  "frame_count (fst (calls plain_drawing session (Renderer_init ''results'' False 30, Map.empty)))
       = 0
   \<and> auto_filename (fst (calls plain_drawing session (Renderer_init ''results'' False 30, Map.empty)))
       = ''frame_000000.jpg''
   \<and> snd (calls plain_drawing session (Renderer_init ''results'' False 30, Map.empty))
       = [''results/frame_000000.jpg'' \<mapsto> 2]
   \<and> frame_count (Renderer_init ''results'' False 30 :: nat Renderer) = 0
   \<and> save_frame (Renderer_init ''results'' False 30) (save_frame (Renderer_init ''results'' False 30)
         Map.empty (1::nat) None) 2 None
       = [path_join ''results'' ''frame_000000.jpg'' \<mapsto> 2]
   \<and> frame_count (fst (calls plain_drawing session (Renderer_init ''results'' True 30, Map.empty)))
       = 2"
proof -
  let ?r = "Renderer_init ''results'' False 30 :: nat Renderer"
  have h: "\<not> False \<or> \<not> (\<exists>c \<in> set session. is_setup c)" by simp
  have z: "frame_count ?r = 0" by (simp add: Renderer_init_def)
  have o: "output_dir ?r = ''results''" by (simp add: Renderer_init_def)
  from frame_count_only_when_writing
         [of plain_drawing ?r 0 None None 0 0 "[]" None Map.empty False session
             "''results''" 30 1 2] h z o
  have "frame_count (fst (calls plain_drawing session (?r, Map.empty))) = 0
      \<and> auto_filename (fst (calls plain_drawing session (?r, Map.empty))) = ''frame_000000.jpg''
      \<and> save_frame ?r (save_frame ?r Map.empty 1 None) 2 None
          = [path_join ''results'' ''frame_000000.jpg'' \<mapsto> 2]"
    by simp
  with z session_disabled session_enabled show ?thesis by simp
qed

end
